theory Spec2Isabelle
  imports Complex_Main
begin

section \<open>Numbers, errors and tensors\<close>

text \<open>
  The module \<^verbatim>\<open>utils/losses.py\<close> computes losses and metrics over tensors. A tensor is
  modelled by the nested list of its entries, and a finite entry by a real number.

  The classes \<open>LaplacianLoss\<close> and \<open>GANLoss\<close> are modelled in exact arithmetic, and so is
  \<open>geodesic_distance\<close> for its guarded branch, whose result depends on no arithmetic.
  Tensor arithmetic does not raise on a division by zero: it yields \<open>inf\<close> or \<open>nan\<close>.
  In exact arithmetic such a result is the value \<open>None\<close> of the type \<open>fval\<close>.

  The functions \<open>geodesic_distance\<close>, \<open>loss_flat\<close>, \<open>agreement_score\<close>,
  \<open>mean_iou_noreduce\<close> and \<open>mean_miou_noreduce\<close> are modelled in the arithmetic of the
  float type of their tensors, with its rounding, its overflow and its non-finite
  values: what they return on given entries depends on it.

  An exception raised by the source is a value \<open>Inl e\<close> of the result.
\<close>

datatype error =
    AssertionError string
  | ShapeAssertion "nat list" "nat list"
  | ValueError string
  | IndexError
  | ZeroDivisionError
  | AttributeError
  | RuntimeError

type_synonym fval = "real option"

definition fdiv :: "real \<Rightarrow> real \<Rightarrow> fval" where
  "fdiv a b = (if b = 0 then None else Some (a / b))"

definition fadd :: "fval \<Rightarrow> fval \<Rightarrow> fval" where
  "fadd a b = (case a of None \<Rightarrow> None | Some x \<Rightarrow> map_option (\<lambda>y. x + y) b)"

definition fneg :: "fval \<Rightarrow> fval" where
  "fneg a = map_option uminus a"

definition fscale :: "fval \<Rightarrow> real \<Rightarrow> fval" where
  \<comment> \<open>\<open>a * w\<close> for a finite number \<open>w\<close>; \<open>inf * 0\<close> is \<open>nan\<close>.\<close>
  "fscale a w = map_option (\<lambda>x. x * w) a"

definition fquot :: "fval \<Rightarrow> real \<Rightarrow> fval" where
  \<comment> \<open>\<open>a / d\<close> for a tensor \<open>a\<close> and a finite number \<open>d\<close>.\<close>
  "fquot a d = (case a of None \<Rightarrow> None | Some x \<Rightarrow> fdiv x d)"

definition mean_t :: "real list \<Rightarrow> fval" where
  \<comment> \<open>\<open>torch.mean\<close> over all entries; \<open>nan\<close> on an empty tensor.\<close>
  "mean_t xs = fdiv (sum_list xs) (real (length xs))"

definition fmean :: "fval list \<Rightarrow> fval" where
  \<comment> \<open>\<open>torch.mean\<close> over entries that may be non-finite.\<close>
  "fmean vs = (if list_all (\<lambda>v. v \<noteq> None) vs then mean_t (map the vs) else None)"

definition dot :: "real list \<Rightarrow> real list \<Rightarrow> real" where
  \<comment> \<open>\<open>(a * b).sum(dim=-1)\<close> on two vectors of one length.\<close>
  "dot a b = sum_list (map2 (*) a b)"

section \<open>Float arithmetic\<close>

text \<open>
  A float is a finite number, an infinity or \<open>nan\<close>. An operation on finite numbers
  rounds its exact result, and overflows to the infinity of the sign of that result; on
  the other values it follows IEEE 754. Zero has no sign here: the zero entry of an input
  is \<open>+0\<close>, and a divisor that is zero is \<open>+0\<close> (the functions of this module divide by a
  sum, by a count or by a scalar argument).
\<close>

datatype fl = Fin real | PInf | MInf | NaN

definition inf_of :: "real \<Rightarrow> fl" where
  \<comment> \<open>The infinity with the sign of a number that is not zero.\<close>
  "inf_of x = (if 0 < x then PInf else MInf)"

definition to_fval :: "fl \<Rightarrow> fval" where
  "to_fval v = (case v of Fin x \<Rightarrow> Some x | _ \<Rightarrow> None)"

fun neg_fl :: "fl \<Rightarrow> fl" where
  "neg_fl (Fin x) = Fin (- x)"
| "neg_fl PInf = MInf"
| "neg_fl MInf = PInf"
| "neg_fl NaN = NaN"

text \<open>
  The operations take the rounding \<open>r\<close> of the float type: \<open>r x\<close> is the float that an
  operation with the exact result \<open>x\<close> returns.
\<close>

fun add_in :: "(real \<Rightarrow> fl) \<Rightarrow> fl \<Rightarrow> fl \<Rightarrow> fl" where
  "add_in r (Fin x) (Fin y) = r (x + y)"
| "add_in r NaN b = NaN"
| "add_in r a NaN = NaN"
| "add_in r PInf MInf = NaN"
| "add_in r MInf PInf = NaN"
| "add_in r PInf b = PInf"
| "add_in r MInf b = MInf"
| "add_in r (Fin x) b = b"

definition sub_in :: "(real \<Rightarrow> fl) \<Rightarrow> fl \<Rightarrow> fl \<Rightarrow> fl" where
  "sub_in r a b = add_in r a (neg_fl b)"

fun mul_in :: "(real \<Rightarrow> fl) \<Rightarrow> fl \<Rightarrow> fl \<Rightarrow> fl" where
  "mul_in r (Fin x) (Fin y) = r (x * y)"
| "mul_in r NaN b = NaN"
| "mul_in r a NaN = NaN"
| "mul_in r (Fin x) PInf = (if x = 0 then NaN else inf_of x)"
| "mul_in r (Fin x) MInf = (if x = 0 then NaN else inf_of (- x))"
| "mul_in r PInf (Fin y) = (if y = 0 then NaN else inf_of y)"
| "mul_in r MInf (Fin y) = (if y = 0 then NaN else inf_of (- y))"
| "mul_in r PInf PInf = PInf"
| "mul_in r PInf MInf = MInf"
| "mul_in r MInf PInf = MInf"
| "mul_in r MInf MInf = PInf"

fun div_in :: "(real \<Rightarrow> fl) \<Rightarrow> fl \<Rightarrow> fl \<Rightarrow> fl" where
  "div_in r (Fin x) (Fin y) =
    (if y = 0 then (if x = 0 then NaN else inf_of x) else r (x / y))"
| "div_in r NaN b = NaN"
| "div_in r a NaN = NaN"
| "div_in r (Fin x) b = Fin 0"
| "div_in r PInf (Fin y) = (if 0 \<le> y then PInf else MInf)"
| "div_in r MInf (Fin y) = (if 0 \<le> y then MInf else PInf)"
| "div_in r a b = NaN"

fun max_fl :: "fl \<Rightarrow> fl \<Rightarrow> fl" where
  "max_fl (Fin x) (Fin y) = Fin (max x y)"
| "max_fl NaN b = NaN"
| "max_fl a NaN = NaN"
| "max_fl PInf b = PInf"
| "max_fl a PInf = PInf"
| "max_fl MInf b = b"
| "max_fl a MInf = a"

fun exp_in :: "(real \<Rightarrow> fl) \<Rightarrow> fl \<Rightarrow> fl" where
  "exp_in r (Fin x) = r (exp x)"
| "exp_in r PInf = PInf"
| "exp_in r MInf = Fin 0"
| "exp_in r NaN = NaN"

definition gt_fl :: "fl \<Rightarrow> fl \<Rightarrow> bool" where
  \<comment> \<open>\<open>a > b\<close>, false when one of them is \<open>nan\<close>.\<close>
  "gt_fl a b =
    (case (a, b) of
       (Fin x, Fin y) \<Rightarrow> y < x
     | (PInf, Fin y) \<Rightarrow> True
     | (PInf, MInf) \<Rightarrow> True
     | (Fin x, MInf) \<Rightarrow> True
     | _ \<Rightarrow> False)"

text \<open>
  How a tensor library sums the entries of an axis, in which order and with which
  intermediate precision, is its own affair, and so is the way it multiplies matrices
  and computes a softmax. A \<open>backend\<close> holds the rounding of the float type and these
  reductions: \<open>sum_of\<close> is \<open>.sum\<close> over the entries of the reduced axes, \<open>mean_of\<close> is
  \<open>torch.mean\<close>, \<open>inner_of a b\<close> is the entry of a matrix product for the row \<open>a\<close> and
  the column \<open>b\<close>, and \<open>softmax_of\<close> is \<open>F.softmax\<close> along one row.
\<close>

record backend =
  rounded :: "real \<Rightarrow> fl"
  sum_of :: "fl list \<Rightarrow> fl"
  mean_of :: "fl list \<Rightarrow> fl"
  inner_of :: "real list \<Rightarrow> real list \<Rightarrow> fl"
  softmax_of :: "fl list \<Rightarrow> fl list"

definition sum_prod :: "backend \<Rightarrow> real list \<Rightarrow> real list \<Rightarrow> fl" where
  \<comment> \<open>\<open>(a * b).sum(dim=-1)\<close> on two vectors of one length.\<close>
  "sum_prod b p t = sum_of b (map2 (\<lambda>x y. rounded b (x * y)) p t)"

definition exact_at_0_1 :: "backend \<Rightarrow> bool" where
  \<comment> \<open>0 and 1 are floats, and a sum and a mean of zeros are zero.\<close>
  "exact_at_0_1 b \<longleftrightarrow>
     rounded b 0 = Fin 0 \<and> rounded b 1 = Fin 1 \<and>
     (\<forall>n. sum_of b (replicate n (Fin 0)) = Fin 0) \<and>
     (\<forall>n. mean_of b (replicate (Suc n) (Fin 0)) = Fin 0)"

definition softmax_single :: "backend \<Rightarrow> bool" where
  \<comment> \<open>The softmax of a row of one finite logit is 1.\<close>
  "softmax_single b \<longleftrightarrow> (\<forall>x. softmax_of b [Fin x] = [Fin 1])"

text \<open>
  The binary formats of IEEE 754 round the exact result to the nearest number with a
  significand of \<open>p\<close> bits, a tie to the one whose last bit is 0; the exponent of a
  number is at least \<open>emin\<close> (below \<open>2 ^ emin\<close> the numbers are evenly spaced), and a
  result of magnitude \<open>2 ^ emax\<close> or more overflows.
\<close>

definition round_even :: "real \<Rightarrow> int" where
  \<comment> \<open>The nearest integer, a tie to the even one.\<close>
  "round_even y =
    (let f = \<lfloor>y\<rfloor>; r = y - of_int f
     in if r < 1/2 then f else if 1/2 < r then f + 1 else if even f then f else f + 1)"

definition round_ieee :: "nat \<Rightarrow> int \<Rightarrow> int \<Rightarrow> real \<Rightarrow> fl" where
  "round_ieee p emin emax x =
    (if x = 0 then Fin 0
     else
       let e = max \<lfloor>log 2 \<bar>x\<bar>\<rfloor> emin;
           u = 2 powi (e - int p + 1);
           y = of_int (round_even (x / u)) * u
       in if 2 powi emax \<le> \<bar>y\<bar> then inf_of x else Fin y)"

definition f32 :: "real \<Rightarrow> fl" where
  "f32 = round_ieee 24 (- 126) 128"

definition f64 :: "real \<Rightarrow> fl" where
  "f64 = round_ieee 53 (- 1022) 1024"

text \<open>
  One backend for a rounding \<open>r\<close>: a sum adds the entries from left to right, a mean
  divides that sum by the number of entries, a matrix product rounds every product and
  sums them, and a softmax subtracts the maximum of the row, exponentiates (the
  exponential is one operation, rounded once), and divides by the sum.
\<close>

definition fold_sum :: "(real \<Rightarrow> fl) \<Rightarrow> fl list \<Rightarrow> fl" where
  "fold_sum r xs = foldl (add_in r) (Fin 0) xs"

definition fold_mean :: "(real \<Rightarrow> fl) \<Rightarrow> fl list \<Rightarrow> fl" where
  "fold_mean r xs = div_in r (fold_sum r xs) (Fin (real (length xs)))"

definition softmax_in :: "(real \<Rightarrow> fl) \<Rightarrow> fl list \<Rightarrow> fl list" where
  "softmax_in r xs =
    (let m = foldr max_fl xs MInf;
         e = map (\<lambda>x. exp_in r (sub_in r x m)) xs;
         s = fold_sum r e
     in map (\<lambda>v. div_in r v s) e)"

definition ieee_backend :: "(real \<Rightarrow> fl) \<Rightarrow> backend" where
  "ieee_backend r =
    \<lparr>rounded = r, sum_of = fold_sum r, mean_of = fold_mean r,
     inner_of = (\<lambda>a b. fold_sum r (map2 (\<lambda>x y. r (x * y)) a b)),
     softmax_of = softmax_in r\<rparr>"

definition float32 :: backend where
  "float32 = ieee_backend f32"

definition float64 :: backend where
  "float64 = ieee_backend f64"

section \<open>geodesic_distance\<close>

text \<open>
  The two arguments are tensors of rank 2: \<open>rows\<close> holds one rotation per row and
  \<open>ncols\<close> is the size of the last axis, so that \<open>.shape\<close> is known for a tensor
  without rows too. A tensor satisfies \<open>wf2\<close>.
\<close>

record tensor2 =
  ncols :: nat
  rows :: "real list list"

definition shape2 :: "tensor2 \<Rightarrow> nat list" where
  "shape2 t = [length (rows t), ncols t]"

definition wf2 :: "tensor2 \<Rightarrow> bool" where
  "wf2 t = list_all (\<lambda>r. length r = ncols t) (rows t)"

datatype gd_result = GD real | GDCount real nat

definition geodesic_distance :: "tensor2 \<Rightarrow> tensor2 \<Rightarrow> bool \<Rightarrow> error + gd_result" where
  "geodesic_distance predicted_rotations target_rotations return_count =
    (if shape2 predicted_rotations \<noteq> shape2 target_rotations then Inl (AssertionError [])
     else if ncols target_rotations = 0 then Inl IndexError
     else
       let Rdist = map2 (\<lambda>p t. 1 - (dot p t)\<^sup>2) (rows predicted_rotations) (rows target_rotations);
           mask = map (\<lambda>t. hd t \<noteq> - 1000) (rows target_rotations);
           count = length (filter (\<lambda>b. b) mask)
       in if count = 0 then (if return_count then Inr (GDCount 0 0) else Inr (GD 0))
          else
            let Rsel = map fst (filter snd (zip Rdist mask));
                gd = sum_list Rsel / real (length Rsel)
            in if return_count then Inr (GDCount gd count) else Inr (GD gd))"

definition flat_identity :: tensor2 where
  \<comment> \<open>One rotation, the identity matrix, flattened along the last axis.\<close>
  "flat_identity = \<lparr>ncols = 9, rows = [[1, 0, 0, 0, 1, 0, 0, 0, 1]]\<rparr>"

definition quat_rows :: tensor2 where
  \<comment> \<open>Two unit quaternions.\<close>
  "quat_rows = \<lparr>ncols = 4, rows = [[1, 0, 0, 0], [1/2, 1/2, 1/2, 1/2]]\<rparr>"

definition no_pose :: tensor2 where
  "no_pose = \<lparr>ncols = 4, rows = [[- 1000, 0, 0, 0], [- 1000, 3, 1, 2]]\<rparr>"

text \<open>
  \<open>geodesic_distance\<close> above is the function in exact arithmetic.
  \<open>geodesic_distance_in\<close> is the function in the arithmetic of a backend: the products,
  their sum along the last axis, the square, the difference \<open>1 - _\<close> and the mean are
  float operations. The result is a Python number: 0, or the float \<open>.item()\<close> gives.
\<close>

datatype gd_value = Dist fl | DistCount fl nat

definition one_minus_square :: "backend \<Rightarrow> fl \<Rightarrow> fl" where
  \<comment> \<open>\<open>1 - d ** 2\<close>\<close>
  "one_minus_square b d = sub_in (rounded b) (Fin 1) (mul_in (rounded b) d d)"

definition geodesic_distance_in ::
  "backend \<Rightarrow> tensor2 \<Rightarrow> tensor2 \<Rightarrow> bool \<Rightarrow> error + gd_value" where
  "geodesic_distance_in b predicted_rotations target_rotations return_count =
    (if shape2 predicted_rotations \<noteq> shape2 target_rotations then Inl (AssertionError [])
     else if ncols target_rotations = 0 then Inl IndexError
     else
       let Rdist = map2 (\<lambda>p t. one_minus_square b (sum_prod b p t))
                     (rows predicted_rotations) (rows target_rotations);
           mask = map (\<lambda>t. hd t \<noteq> - 1000) (rows target_rotations);
           count = length (filter (\<lambda>b. b) mask)
       in if count = 0
          then (if return_count then Inr (DistCount (Fin 0) 0) else Inr (Dist (Fin 0)))
          else
            let Rsel = map fst (filter snd (zip Rdist mask));
                gd = mean_of b Rsel
            in if return_count then Inr (DistCount gd count) else Inr (Dist gd))"

definition float_quats :: tensor2 where
  \<comment> \<open>The float32 numbers next to 0.6 and 0.8, and a quaternion of four halves.\<close>
  "float_quats = \<lparr>ncols = 4, rows = [[5033165/8388608, 13421773/16777216, 0, 0],
                                        [1/2, 1/2, 1/2, 1/2]]\<rparr>"

section \<open>loss_flat\<close>

text \<open>
  \<open>norms\<close> has shape (batch, faces, 3): a list over the batch of lists of normals.
  \<open>mesh.ff\<close> has shape (faces, 3): one triple of neighbour indices per face. Indexing a
  tensor by an index tensor accepts the indices \<open>-n \<le> j < n\<close> and raises otherwise.
  The product \<open>norm1 * norm2\<close> is elementwise for two lists of faces of one length,
  repeats a list of one face, and raises for other lengths.
\<close>

record mesh =
  faces :: "(nat \<times> nat \<times> nat) list"
  ff :: "(int \<times> int \<times> int) list"

definition ff_col :: "nat \<Rightarrow> int \<times> int \<times> int \<Rightarrow> int" where
  \<comment> \<open>\<open>ff[:, i]\<close> at one face, for \<open>i\<close> in \<open>range(3)\<close>.\<close>
  "ff_col i t = (case t of (a, b, c) \<Rightarrow> if i = 0 then a else if i = 1 then b else c)"

definition index_select :: "'a list \<Rightarrow> int \<Rightarrow> error + 'a" where
  "index_select xs j =
    (let n = int (length xs)
     in if 0 \<le> j \<and> j < n then Inr (xs ! nat j)
        else if - n \<le> j \<and> j < 0 then Inr (xs ! nat (n + j))
        else Inl IndexError)"

fun collect :: "(error + 'a) list \<Rightarrow> error + 'a list" where
  "collect [] = Inr []"
| "collect (x # xs) =
    (case x of
       Inl e \<Rightarrow> Inl e
     | Inr v \<Rightarrow> (case collect xs of Inl e \<Rightarrow> Inl e | Inr vs \<Rightarrow> Inr (v # vs)))"

definition broadcast :: "'a list \<Rightarrow> 'a list \<Rightarrow> error + ('a \<times> 'a) list" where
  "broadcast xs ys =
    (if length xs = length ys then Inr (zip xs ys)
     else if length xs = 1 then Inr (map (\<lambda>y. (hd xs, y)) ys)
     else if length ys = 1 then Inr (map (\<lambda>x. (x, hd ys)) xs)
     else Inl RuntimeError)"

definition edge_cos_in ::
  "backend \<Rightarrow> real list list list \<Rightarrow> int list \<Rightarrow> error + fl list list" where
  \<comment> \<open>\<open>torch.sum(norms * norms[:, idx], dim=-1)\<close>, of shape (batch, faces).\<close>
  "edge_cos_in b norms idx =
    collect (map (\<lambda>norm1.
      case collect (map (index_select norm1) idx) of
        Inl e \<Rightarrow> Inl e
      | Inr norm2 \<Rightarrow>
          (case broadcast norm1 norm2 of
             Inl e \<Rightarrow> Inl e
           | Inr pairs \<Rightarrow> Inr (map (\<lambda>(n1, n2). sum_prod b n1 n2) pairs))) norms)"

definition minus_one_squared :: "backend \<Rightarrow> fl \<Rightarrow> fl" where
  \<comment> \<open>\<open>(c - 1) ** 2\<close>\<close>
  "minus_one_squared b c =
    (let e = sub_in (rounded b) c (Fin 1) in mul_in (rounded b) e e)"

fun flat_loop_in ::
  "backend \<Rightarrow> mesh \<Rightarrow> real list list list \<Rightarrow> nat list \<Rightarrow> fl \<Rightarrow> error + fl" where
  "flat_loop_in b m norms [] loss = Inr loss"
| "flat_loop_in b m norms (i # rest) loss =
    (case edge_cos_in b norms (map (ff_col i) (ff m)) of
       Inl e \<Rightarrow> Inl e
     | Inr cosv \<Rightarrow>
         flat_loop_in b m norms rest
           (add_in (rounded b) loss (mean_of b (map (minus_one_squared b) (concat cosv)))))"

definition loss_flat_in :: "backend \<Rightarrow> mesh \<Rightarrow> real list list list \<Rightarrow> error + fl" where
  "loss_flat_in b m norms =
    (case flat_loop_in b m norms [0, 1, 2] (Fin 0) of
       Inl e \<Rightarrow> Inl e
     | Inr loss \<Rightarrow>
         Inr (mul_in (rounded b) loss (rounded b (real (length (faces m)) / 2))))"

definition unit_pair_in :: "backend \<Rightarrow> real list list \<Rightarrow> bool" where
  \<comment> \<open>The normals of a mesh of two faces: one vector of three components, twice, whose
      computed inner product with itself is 1.\<close>
  "unit_pair_in b nb =
    (case nb of [n1, n2] \<Rightarrow> n1 = n2 \<and> length n1 = 3 \<and> sum_prod b n1 n1 = Fin 1 | _ \<Rightarrow> False)"

definition two_faces :: mesh where
  \<comment> \<open>Two triangles on the same three vertices: each is the other's neighbour across every edge.\<close>
  "two_faces = \<lparr>faces = [(0, 1, 2), (2, 1, 0)], ff = [(1, 1, 1), (0, 0, 0)]\<rparr>"

section \<open>mean_iou_noreduce and mean_miou_noreduce\<close>

text \<open>
  \<open>mean_iou_noreduce\<close> reduces the last two axes: its arguments are lists (over the
  leading axes) of images, an image being the list of its rows. The comparisons give
  booleans, \<open>.float()\<close> turns them into the float32 numbers 0 and 1, whose sum over an image
  of fewer than \<open>2 ^ 24\<close> pixels is exact. The sum \<open>union + 1e-6\<close> and the quotient are
  float32 operations: \<open>rnd\<close> is the rounding applied to the exact result of each, the
  identity for exact arithmetic.
\<close>

definition bsum :: "bool list list \<Rightarrow> real" where
  \<comment> \<open>\<open>.float().sum(dim=[-1, -2])\<close> of one boolean image.\<close>
  "bsum img = sum_list (map (\<lambda>b. if b then 1 else 0) (concat img))"

definition gt_half :: "real list list \<Rightarrow> bool list list" where
  \<comment> \<open>\<open>_ > 0.5\<close> on one image.\<close>
  "gt_half img = map (map (\<lambda>x. 1/2 < x)) img"

definition mean_iou_noreduce_in ::
  "(real \<Rightarrow> real) \<Rightarrow> real list list list \<Rightarrow> real list list list \<Rightarrow> fval list" where
  "mean_iou_noreduce_in rnd alpha_pred alpha_real =
    (let alpha_pred' = map gt_half alpha_pred;
         alpha_real' = map gt_half alpha_real;
         intersection = map2 (\<lambda>p r. bsum (map2 (map2 (\<and>)) p r)) alpha_pred' alpha_real';
         union = map2 (\<lambda>p r. bsum (map2 (map2 (\<or>)) p r)) alpha_pred' alpha_real'
     in map2 (\<lambda>i u.
          let d = rnd (u + rnd (1/1000000))
          in if d = 0 then None else Some (rnd (i / d))) intersection union)"

text \<open>
  \<open>round32\<close> is the rounding of float32 for its normal range (magnitudes from
  \<open>2 ^ -126\<close> up to \<open>2 ^ 128\<close>), which holds every number \<open>mean_iou_noreduce\<close> computes
  on images of fewer than \<open>2 ^ 24\<close> pixels.
\<close>

definition round32 :: "real \<Rightarrow> real" where
  "round32 x =
    (if x = 0 then 0
     else let e = \<lfloor>log 2 \<bar>x\<bar>\<rfloor>; u = 2 powi (e - 23)
          in of_int (round_even (x / u)) * u)"

definition mean_iou_noreduce_f32 :: "real list list list \<Rightarrow> real list list list \<Rightarrow> fval list" where
  \<comment> \<open>In float32, as \<open>.float()\<close> makes it.\<close>
  "mean_iou_noreduce_f32 = mean_iou_noreduce_in round32"

definition pixels :: "real list list \<Rightarrow> nat" where
  "pixels img = length (concat img)"

definition in_unit_interval :: "fval \<Rightarrow> bool" where
  "in_unit_interval v = (case v of None \<Rightarrow> False | Some x \<Rightarrow> 0 \<le> x \<and> x \<le> 1)"

definition below_one :: "fval \<Rightarrow> bool" where
  "below_one v = (case v of None \<Rightarrow> False | Some x \<Rightarrow> 0 \<le> x \<and> x < 1)"

definition full_mask :: "real list list" where
  \<comment> \<open>An image of 8 by 8 pixels, all set.\<close>
  "full_mask =
    [[1, 1, 1, 1, 1, 1, 1, 1], [1, 1, 1, 1, 1, 1, 1, 1], [1, 1, 1, 1, 1, 1, 1, 1],
     [1, 1, 1, 1, 1, 1, 1, 1], [1, 1, 1, 1, 1, 1, 1, 1], [1, 1, 1, 1, 1, 1, 1, 1],
     [1, 1, 1, 1, 1, 1, 1, 1], [1, 1, 1, 1, 1, 1, 1, 1]]"
text \<open>
  \<open>mean_miou_noreduce\<close> takes two tensors of one shape (batch, channels, H, W), and
  computes in their float type: \<open>torch.min\<close> and \<open>torch.max\<close> are exact, the sums, the
  sum with \<open>1e-6\<close> and the quotients are float operations, and the scalar \<open>1e-6\<close> is
  taken in that type. The boolean weights count as 0 and 1, and their sum is a count.
\<close>

definition mean_miou_noreduce_in ::
  "backend \<Rightarrow> real list list list list \<Rightarrow> real list list list list \<Rightarrow> bool \<Rightarrow> fl list" where
  "mean_miou_noreduce_in b pred target balanced =
    (let intersection = map2 (map2 (\<lambda>p t. sum_of b (map Fin (concat (map2 (map2 min) p t)))))
                          pred target;
         union = map2 (map2 (\<lambda>p t. sum_of b (map Fin (concat (map2 (map2 max) p t)))))
                   pred target;
         eps = rounded b (1/1000000)
     in if balanced then
          let iou = map2 (map2 (\<lambda>i u. div_in (rounded b) i (add_in (rounded b) u eps)))
                      intersection union;
              wts = map (map (\<lambda>t. gt_fl (sum_of b (map Fin (concat t))) eps)) target
          in map2 (\<lambda>ious ws.
               div_in (rounded b)
                 (sum_of b (map2 (\<lambda>v w. mul_in (rounded b) v (Fin (if w then 1 else 0))) ious ws))
                 (rounded b (real (length (filter (\<lambda>w. w) ws))))) iou wts
        else map2 (\<lambda>i u. div_in (rounded b) (sum_of b i)
                            (add_in (rounded b) (sum_of b u) eps))
               intersection union)"

definition binary_mask :: "real list list \<Rightarrow> bool" where
  "binary_mask img = list_all (list_all (\<lambda>x. x = 0 \<or> x = 1)) img"

definition same_dims :: "'a list list \<Rightarrow> 'b list list \<Rightarrow> bool" where
  \<comment> \<open>Two images of one height and width.\<close>
  "same_dims a b = (map length a = map length b)"

definition single_channel ::
  "real list list list list \<Rightarrow> real list list list list \<Rightarrow> bool" where
  \<comment> \<open>Two batches of one size, of 0/1 masks with one channel, of the same height and width.\<close>
  "single_channel pred target =
    list_all2 (\<lambda>p t. case (p, t) of
        ([a], [b]) \<Rightarrow> binary_mask a \<and> binary_mask b \<and> same_dims a b
      | _ \<Rightarrow> False) pred target"

definition counts_exactly :: "backend \<Rightarrow> bool" where
  \<comment> \<open>The sum of fewer than \<open>2 ^ 24\<close> entries 0 and 1 is their number of ones, and the sum
      of one such count is that count: so it is in float32, in whatever order a sum runs.\<close>
  "counts_exactly b \<longleftrightarrow>
     (\<forall>xs. list_all (\<lambda>x. x = 0 \<or> x = 1) xs \<and> length xs < 2 ^ 24 \<longrightarrow>
           sum_of b (map Fin xs) = Fin (sum_list xs)) \<and>
     (\<forall>n. n < 2 ^ 24 \<longrightarrow> sum_of b [Fin (real n)] = Fin (real n))"

section \<open>agreement_score\<close>

text \<open>
  \<open>iou_or_miou\<close> has shape (batch, hypotheses) and \<open>rotations\<close> has shape
  (batch, hypotheses, d). The scalar \<open>temperature\<close> is taken in the float type of the
  tensors, and the division by it is a float operation: it overflows for a large
  confidence, and a zero temperature gives non-finite logits. \<open>rotations @
  rotations.transpose(1, 2)\<close> is a matrix product per batch element, the two products
  with \<open>v_conf\<close> are elementwise, and the sum runs over the two axes of the hypotheses.
  The two arguments agree on the batch and on the number of hypotheses.
\<close>

definition agreement_score_in ::
  "backend \<Rightarrow> real list list \<Rightarrow> real list list list \<Rightarrow> real \<Rightarrow> fl list" where
  "agreement_score_in b iou_or_miou rotations temperature =
    (let logits = map (map (\<lambda>x. div_in (rounded b) (Fin x) (rounded b temperature)))
                    iou_or_miou;
         v_conf = map (softmax_of b) logits;
         D = map (\<lambda>rs. map (\<lambda>ri. map (\<lambda>rj. one_minus_square b (inner_of b ri rj)) rs) rs)
               rotations;
         v_conf_mask = map (\<lambda>c. map (\<lambda>ci. map (\<lambda>cj. mul_in (rounded b) ci cj) c) c) v_conf
     in map2 (\<lambda>d m. sum_of b (concat (map2 (map2 (mul_in (rounded b))) d m))) D v_conf_mask)"

definition finite_fl :: "fl \<Rightarrow> bool" where
  "finite_fl v = (case v of Fin x \<Rightarrow> True | _ \<Rightarrow> False)"

definition one_finite_logit :: "backend \<Rightarrow> real \<Rightarrow> real list \<Rightarrow> bool" where
  \<comment> \<open>A row of one confidence, whose logit is a finite number.\<close>
  "one_finite_logit b temperature q =
    (case q of
       [x] \<Rightarrow> finite_fl (div_in (rounded b) (Fin x) (rounded b temperature))
     | _ \<Rightarrow> False)"

definition one_unit_hypothesis_in :: "backend \<Rightarrow> real list list \<Rightarrow> bool" where
  \<comment> \<open>One hypothesis, whose computed inner product with itself is 1.\<close>
  "one_unit_hypothesis_in b rs = (case rs of [r] \<Rightarrow> inner_of b r r = Fin 1 | _ \<Rightarrow> False)"

section \<open>LaplacianLoss\<close>

text \<open>
  The module holds the Laplacian, a matrix, and the flag \<open>average\<close>. The input \<open>x\<close> has
  shape (batch, vertices, d); \<open>torch.matmul\<close> multiplies every batch element by the
  Laplacian and raises when the sizes do not fit. \<open>forward\<close> returns the vector of the
  per-sample sums, or a scalar when \<open>average\<close> is set.
\<close>

record LaplacianLoss =
  laplacian :: "real list list"
  average :: bool

datatype lap_out = PerSample "real list" | Averaged fval

definition matmul :: "real list list \<Rightarrow> real list list \<Rightarrow> real list list" where
  "matmul A X = map (\<lambda>row. map (\<lambda>col. dot row col) (transpose X)) A"

definition LaplacianLoss_forward :: "LaplacianLoss \<Rightarrow> real list list list \<Rightarrow> error + lap_out" where
  "LaplacianLoss_forward self x =
    (let batch_size = length x
     in if \<not> list_all (\<lambda>xb. list_all (\<lambda>row. length row = length xb) (laplacian self)) x
        then Inl RuntimeError
        else
          let x' = map (matmul (laplacian self)) x;
              x'' = map (\<lambda>xb. sum_list (map (\<lambda>v. v\<^sup>2) (concat xb))) x'
          in if average self then Inr (Averaged (fdiv (sum_list x'') (real batch_size)))
             else Inr (PerSample x''))"

definition entries :: "lap_out \<Rightarrow> fval list" where
  \<comment> \<open>The values a result holds, whatever its shape.\<close>
  "entries r = (case r of PerSample xs \<Rightarrow> map Some xs | Averaged v \<Rightarrow> [v])"

definition path_laplacian :: "real list list" where
  "path_laplacian = [[1, - 1, 0], [- 1, 2, - 1], [0, - 1, 1]]"

section \<open>GANLoss\<close>

text \<open>
  A prediction of the discriminator and its mask are tensors of shape
  (batch, channels, height, width): \<open>samples\<close> holds, per batch element, its
  \<open>channels * height * width\<close> entries, so that \<open>torch.sum(_, dim=[1, 2, 3])\<close> is the sum
  of one element of \<open>samples\<close>.

  The instance keeps its configuration and the three label tensors it creates on first
  use: every method that may create one returns the instance with its result.
\<close>

record tensor =
  chans :: nat
  height :: nat
  width :: nat
  samples :: "real list list"

definition shape :: "tensor \<Rightarrow> nat list" where
  "shape t = [length (samples t), chans t, height t, width t]"

definition tmap :: "(real \<Rightarrow> real) \<Rightarrow> tensor \<Rightarrow> tensor" where
  "tmap f t = t\<lparr>samples := map (map f) (samples t)\<rparr>"

definition tmap2 :: "(real \<Rightarrow> real \<Rightarrow> real) \<Rightarrow> tensor \<Rightarrow> tensor \<Rightarrow> tensor" where
  \<comment> \<open>An elementwise operation on two tensors of one shape.\<close>
  "tmap2 f a b = a\<lparr>samples := map2 (map2 f) (samples a) (samples b)\<rparr>"

definition expand_as :: "real \<Rightarrow> tensor \<Rightarrow> tensor" where
  "expand_as v input = tmap (\<lambda>x. v) input"

definition torch_mean :: "tensor \<Rightarrow> fval" where
  "torch_mean t = mean_t (concat (samples t))"

definition binary_cross_entropy_with_logits :: "tensor \<Rightarrow> tensor \<Rightarrow> fval" where
  "binary_cross_entropy_with_logits input target =
    torch_mean (tmap2 (\<lambda>x z. max x 0 - x * z + ln (1 + exp (- \<bar>x\<bar>))) input target)"

definition mse_loss :: "tensor \<Rightarrow> tensor \<Rightarrow> fval" where
  "mse_loss input target = torch_mean (tmap2 (\<lambda>x z. (x - z)\<^sup>2) input target)"

datatype mask_arg = MaskTensor tensor | MaskList "tensor list"

record GANLoss =
  real_label :: real
  fake_label :: real
  real_label_tensor :: "real option"
  fake_label_tensor :: "real option"
  zero_tensor :: "real option"
  gan_mode :: string

definition GANLoss_init :: "string \<Rightarrow> real \<Rightarrow> real \<Rightarrow> error + GANLoss" where
  "GANLoss_init mode target_real_label target_fake_label =
    (if mode = ''ls'' \<or> mode = ''original'' \<or> mode = ''w'' \<or> mode = ''hinge''
     then Inr \<lparr>real_label = target_real_label, fake_label = target_fake_label,
               real_label_tensor = None, fake_label_tensor = None, zero_tensor = None,
               gan_mode = mode\<rparr>
     else Inl (ValueError (''Unexpected gan_mode '' @ mode)))"

definition get_target_tensor :: "GANLoss \<Rightarrow> tensor \<Rightarrow> bool \<Rightarrow> tensor \<times> GANLoss" where
  "get_target_tensor self input target_is_real =
    (if target_is_real then
       (case real_label_tensor self of
          None \<Rightarrow> (expand_as (real_label self) input,
                   self\<lparr>real_label_tensor := Some (real_label self)\<rparr>)
        | Some v \<Rightarrow> (expand_as v input, self))
     else
       (case fake_label_tensor self of
          None \<Rightarrow> (expand_as (fake_label self) input,
                   self\<lparr>fake_label_tensor := Some (fake_label self)\<rparr>)
        | Some v \<Rightarrow> (expand_as v input, self)))"

definition get_zero_tensor :: "GANLoss \<Rightarrow> tensor \<Rightarrow> tensor \<times> GANLoss" where
  "get_zero_tensor self input =
    (case zero_tensor self of
       None \<Rightarrow> (expand_as 0 input, self\<lparr>zero_tensor := Some 0\<rparr>)
     | Some v \<Rightarrow> (expand_as v input, self))"

definition GANLoss_mean :: "tensor \<Rightarrow> mask_arg option \<Rightarrow> real option \<Rightarrow> error + fval" where
  "GANLoss_mean x msk weight =
    (let weight' = (case weight of None \<Rightarrow> 1 | Some w \<Rightarrow> w)
     in case msk of
          None \<Rightarrow> Inr (fscale (torch_mean x) weight')
        | Some (MaskList l) \<Rightarrow> Inl AttributeError
        | Some (MaskTensor m) \<Rightarrow>
            if shape x \<noteq> shape m then Inl (ShapeAssertion (shape x) (shape m))
            else
              let ret = map2 (\<lambda>xs ms. fdiv (sum_list (map2 (*) xs ms)) (sum_list ms))
                          (samples x) (samples m)
              in Inr (fscale (fmean ret) weight'))"

definition GANLoss_loss ::
  "GANLoss \<Rightarrow> tensor \<Rightarrow> bool \<Rightarrow> bool \<Rightarrow> mask_arg option \<Rightarrow> real option \<Rightarrow>
   (error + fval) \<times> GANLoss" where
  "GANLoss_loss self input target_is_real for_discriminator msk weight =
    (if gan_mode self = ''original'' then
       (case get_target_tensor self input target_is_real of
          (target_tensor, self') \<Rightarrow>
            (Inr (binary_cross_entropy_with_logits input target_tensor), self'))
     else if gan_mode self = ''ls'' then
       (case get_target_tensor self input target_is_real of
          (target_tensor, self') \<Rightarrow> (Inr (mse_loss input target_tensor), self'))
     else if gan_mode self = ''hinge'' then
       (if for_discriminator then
          (if target_is_real then
             (case get_zero_tensor self input of
                (zero, self') \<Rightarrow>
                  let minval = tmap2 min (tmap (\<lambda>x. x - 1) input) zero
                  in (map_sum id fneg (GANLoss_mean minval msk weight), self'))
           else
             (case get_zero_tensor self input of
                (zero, self') \<Rightarrow>
                  let minval = tmap2 min (tmap (\<lambda>x. - x - 1) input) zero
                  in (map_sum id fneg (GANLoss_mean minval msk weight), self')))
        else if \<not> target_is_real
          then (Inl (AssertionError ''The generator's hinge loss must be aiming for real''), self)
          else (map_sum id fneg (GANLoss_mean input msk weight), self))
     else
       (if target_is_real then (Inr (fneg (torch_mean input)), self)
        else (Inr (torch_mean input), self)))"

text \<open>
  \<open>__call__\<close> takes one tensor, or a list with one prediction per scale, each a tensor
  or itself a list, of which the last tensor is used. \<open>mask\<close> (here \<open>msk\<close>) is absent, a tensor or a
  list of tensors; \<open>weight\<close> is absent or a list of numbers. Every per-scale loss is a
  scalar, so \<open>new_loss\<close> is that scalar; \<open>loss\<close> is the Python number 0 until the first
  scale has been added, and dividing that number by zero raises.
\<close>

datatype pred = PredTensor tensor | PredList "tensor list"

datatype call_input = Single tensor | Scales "pred list"

fun call_loop ::
  "GANLoss \<Rightarrow> bool \<Rightarrow> bool \<Rightarrow> tensor list option \<Rightarrow> real list option \<Rightarrow> nat \<Rightarrow>
   pred list \<Rightarrow> fval \<Rightarrow> (error + fval) \<times> GANLoss" where
  "call_loop self target_is_real for_discriminator msk weight idx [] loss = (Inr loss, self)"
| "call_loop self target_is_real for_discriminator msk weight idx (p # ps) loss =
    (case (case p of
             PredTensor t \<Rightarrow> Inr t
           | PredList l \<Rightarrow> if l = [] then Inl IndexError else Inr (last l)) of
       Inl e \<Rightarrow> (Inl e, self)
     | Inr pred_i \<Rightarrow>
        (case (case msk of
                 None \<Rightarrow> Inr None
               | Some ms \<Rightarrow> if idx < length ms then Inr (Some (MaskTensor (ms ! idx)))
                            else Inl IndexError) of
           Inl e \<Rightarrow> (Inl e, self)
         | Inr mask_i \<Rightarrow>
            (case (case weight of
                     None \<Rightarrow> Inr None
                   | Some ws \<Rightarrow> if idx < length ws then Inr (Some (ws ! idx))
                                else Inl IndexError) of
               Inl e \<Rightarrow> (Inl e, self)
             | Inr weight_i \<Rightarrow>
                (case GANLoss_loss self pred_i target_is_real for_discriminator mask_i weight_i of
                   (Inl e, self') \<Rightarrow> (Inl e, self')
                 | (Inr loss_tensor, self') \<Rightarrow>
                     call_loop self' target_is_real for_discriminator msk weight (Suc idx) ps
                       (fadd loss loss_tensor)))))"

definition GANLoss_call ::
  "GANLoss \<Rightarrow> call_input \<Rightarrow> bool \<Rightarrow> bool \<Rightarrow> mask_arg option \<Rightarrow> real list option \<Rightarrow>
   (error + fval) \<times> GANLoss" where
  "GANLoss_call self input target_is_real for_discriminator msk weight =
    (case input of
       Scales preds \<Rightarrow>
        (case (case msk of
                 None \<Rightarrow> Inr None
               | Some (MaskTensor m) \<Rightarrow> Inl (AssertionError [])
               | Some (MaskList ms) \<Rightarrow>
                   if length preds = length ms then Inr (Some ms)
                   else Inl (AssertionError [])) of
           Inl e \<Rightarrow> (Inl e, self)
         | Inr msk' \<Rightarrow>
            (case call_loop self target_is_real for_discriminator msk' weight 0 preds (Some 0) of
               (Inl e, self') \<Rightarrow> (Inl e, self')
             | (Inr loss, self') \<Rightarrow>
                (case weight of
                   None \<Rightarrow>
                     (if preds = [] then Inl ZeroDivisionError
                      else Inr (fquot loss (real (length preds))), self')
                 | Some ws \<Rightarrow>
                     (if preds = [] \<and> sum_list ws = 0 then Inl ZeroDivisionError
                      else Inr (fquot loss (sum_list ws)), self'))))
     | Single t \<Rightarrow> GANLoss_loss self t target_is_real for_discriminator msk None)"

definition hinge_loss :: GANLoss where
  \<comment> \<open>\<open>GANLoss('hinge')\<close>, as the constructor returns it.\<close>
  "hinge_loss = \<lparr>real_label = 1, fake_label = 0, real_label_tensor = None,
                  fake_label_tensor = None, zero_tensor = None, gan_mode = ''hinge''\<rparr>"

definition ls_loss :: GANLoss where
  "ls_loss = \<lparr>real_label = 1, fake_label = 0, real_label_tensor = None,
               fake_label_tensor = None, zero_tensor = None, gan_mode = ''ls''\<rparr>"

definition pixel :: "real \<Rightarrow> tensor" where
  \<comment> \<open>A tensor of shape (1, 1, 1, 1).\<close>
  "pixel v = \<lparr>chans = 1, height = 1, width = 1, samples = [[v]]\<rparr>"

definition two_by_two :: tensor where
  \<comment> \<open>A tensor of shape (2, 1, 1, 2).\<close>
  "two_by_two = \<lparr>chans = 1, height = 1, width = 2, samples = [[1, 2], [3, 4]]\<rparr>"

definition left_mask :: tensor where
  \<comment> \<open>A mask of that shape, which hides the second entry of the first sample.\<close>
  "left_mask = \<lparr>chans = 1, height = 1, width = 2, samples = [[1, 0], [1, 1]]\<rparr>"

section \<open>Properties of the float arithmetic\<close>

subsection \<open>Rounding\<close>

lemma round_even_of_int: "round_even (of_int n) = n"
  by (simp add: round_even_def)

lemma round_even_range: "\<lfloor>y\<rfloor> \<le> round_even y \<and> round_even y \<le> \<lfloor>y\<rfloor> + 1"
  by (simp add: round_even_def Let_def)

lemma round_even_mono:
  assumes "x \<le> y"
  shows "round_even x \<le> round_even y"
proof (cases "\<lfloor>x\<rfloor> = \<lfloor>y\<rfloor>")
  case True
  then show ?thesis
    using assms by (auto simp: round_even_def Let_def)
next
  case False
  with assms have "\<lfloor>x\<rfloor> + 1 \<le> \<lfloor>y\<rfloor>"
    using floor_mono [of x y] by linarith
  then show ?thesis
    using round_even_range [of x] round_even_range [of y] by linarith
qed

lemma powr_powi: "(2::real) powr real_of_int k = 2 powi k"
  by (rule powr_real_of_int') simp_all

lemma floor_log2_iff:
  assumes "0 < x"
  shows "\<lfloor>log 2 x\<rfloor> = e \<longleftrightarrow> 2 powi e \<le> x \<and> x < 2 powi (e + 1)"
proof -
  have "\<lfloor>log 2 x\<rfloor> = e \<longleftrightarrow> 2 powr real_of_int e \<le> x \<and> x < 2 powr real_of_int (e + 1)"
    using assms by (intro floor_log_eq_powr_iff) simp_all
  then show ?thesis
    by (simp only: powr_powi)
qed

lemma binade:
  assumes "0 < x"
  shows "2 powi \<lfloor>log 2 x\<rfloor> \<le> x \<and> x < 2 powi (\<lfloor>log 2 x\<rfloor> + 1)"
  using floor_log2_iff [OF assms, of "\<lfloor>log 2 x\<rfloor>"] by simp

lemma binade_unique:
  assumes "2 powi e \<le> x" and "x < 2 powi (e + 1)"
  shows "\<lfloor>log 2 x\<rfloor> = e"
proof -
  have "(0::real) < 2 powi e"
    by simp
  with assms(1) have "0 < x"
    by linarith
  then show ?thesis
    using floor_log2_iff [of x e] assms by simp
qed

text \<open>Scaled by its unit in the last place, a positive number has 24 bits before the point.\<close>

lemma scaled:
  assumes "0 < x"
  shows "2 ^ 23 \<le> x / 2 powi (\<lfloor>log 2 x\<rfloor> - 23) \<and> x / 2 powi (\<lfloor>log 2 x\<rfloor> - 23) < 2 ^ 24"
proof -
  let ?e = "\<lfloor>log 2 x\<rfloor>"
  have u: "(0::real) < 2 powi (?e - 23)"
    by simp
  have lo: "2 ^ 23 * 2 powi (?e - 23) = (2::real) powi ?e"
    by (simp add: power_int_diff)
  have hi: "2 ^ 24 * 2 powi (?e - 23) = (2::real) powi (?e + 1)"
    by (simp add: power_int_diff power_int_add)
  show ?thesis
    using binade [OF assms] u lo hi
    by (simp add: pos_le_divide_eq pos_divide_less_eq)
qed

text \<open>Rounding keeps a positive number within its binade.\<close>

lemma round32_pos_bounds:
  assumes "0 < x"
  shows "2 powi \<lfloor>log 2 x\<rfloor> \<le> round32 x \<and> round32 x \<le> 2 powi (\<lfloor>log 2 x\<rfloor> + 1)"
proof -
  let ?e = "\<lfloor>log 2 x\<rfloor>"
  let ?u = "(2::real) powi (?e - 23)"
  have u: "0 < ?u"
    by simp
  have "round_even (of_int (2 ^ 23)) \<le> round_even (x / ?u)"
    using scaled [OF assms] by (intro round_even_mono) simp
  then have lo: "2 ^ 23 \<le> round_even (x / ?u)"
    by (simp only: round_even_of_int)
  have "round_even (x / ?u) \<le> round_even (of_int (2 ^ 24))"
    using scaled [OF assms] by (intro round_even_mono) simp
  then have hi: "round_even (x / ?u) \<le> 2 ^ 24"
    by (simp only: round_even_of_int)
  have r: "round32 x = of_int (round_even (x / ?u)) * ?u"
    using assms by (simp add: round32_def Let_def)
  have "real_of_int (2 ^ 23) \<le> of_int (round_even (x / ?u))"
    using lo by (simp only: of_int_le_iff)
  then have "2 ^ 23 * ?u \<le> of_int (round_even (x / ?u)) * ?u"
    using u by (intro mult_right_mono) simp_all
  moreover have "real_of_int (round_even (x / ?u)) \<le> of_int (2 ^ 24)"
    using hi by (simp only: of_int_le_iff)
  then have "of_int (round_even (x / ?u)) * ?u \<le> 2 ^ 24 * ?u"
    using u by (intro mult_right_mono) simp_all
  moreover have "2 ^ 23 * ?u = (2::real) powi ?e"
    by (simp add: power_int_diff)
  moreover have "2 ^ 24 * ?u = (2::real) powi (?e + 1)"
    by (simp add: power_int_diff power_int_add)
  ultimately show ?thesis
    using r by linarith
qed

lemma round32_pos: "0 < x \<Longrightarrow> 0 < round32 x"
proof -
  assume "0 < x"
  from round32_pos_bounds [OF this] have "2 powi \<lfloor>log 2 x\<rfloor> \<le> round32 x"
    by simp
  moreover have "(0::real) < 2 powi \<lfloor>log 2 x\<rfloor>"
    by simp
  ultimately show ?thesis
    by linarith
qed

lemma round32_mono:
  assumes "0 < x" and "x \<le> y"
  shows "round32 x \<le> round32 y"
proof -
  have y: "0 < y"
    using assms by simp
  have le: "\<lfloor>log 2 x\<rfloor> \<le> \<lfloor>log 2 y\<rfloor>"
    using assms by (intro floor_mono) simp
  show ?thesis
  proof (cases "\<lfloor>log 2 x\<rfloor> = \<lfloor>log 2 y\<rfloor>")
    case True
    let ?u = "(2::real) powi (\<lfloor>log 2 y\<rfloor> - 23)"
    have "x / ?u \<le> y / ?u"
      using assms(2) by (simp add: divide_right_mono)
    then have "real_of_int (round_even (x / ?u)) * ?u \<le> real_of_int (round_even (y / ?u)) * ?u"
      by (intro mult_right_mono) (simp_all add: round_even_mono)
    then show ?thesis
      using assms(1) y True by (simp add: round32_def Let_def)
  next
    case False
    with le have "\<lfloor>log 2 x\<rfloor> + 1 \<le> \<lfloor>log 2 y\<rfloor>"
      by simp
    then have "(2::real) powi (\<lfloor>log 2 x\<rfloor> + 1) \<le> 2 powi \<lfloor>log 2 y\<rfloor>"
      by (intro power_int_increasing) simp_all
    then show ?thesis
      using round32_pos_bounds [OF assms(1)] round32_pos_bounds [OF y] by linarith
  qed
qed

text \<open>A count below \<open>2 ^ 24\<close> is a float32 number.\<close>

lemma round32_exact:
  assumes "0 < n" and "n < 2 ^ 24"
  shows "round32 (real n) = real n"
proof -
  let ?e = "\<lfloor>log 2 (real n)\<rfloor>"
  let ?u = "(2::real) powi (?e - 23)"
  have n: "0 < real n"
    using assms(1) by simp
  have "(2::real) powi ?e \<le> real n"
    using binade [OF n] by simp
  also have "real n < 2 powi 24"
  proof -
    have "real n < real (2 ^ 24)"
      using assms(2) by (simp only: of_nat_less_iff)
    then show ?thesis
      by simp
  qed
  finally have "(2::real) powi ?e < 2 powi 24" .
  then have "?e < 24"
    by (intro power_int_le_imp_less_exp [of "2::real"]) simp_all
  then have e: "0 \<le> 23 - ?e"
    by simp
  have "real n / ?u = real n * 2 powi (23 - ?e)"
    by (simp add: power_int_diff)
  also have "\<dots> = real n * 2 ^ nat (23 - ?e)"
    using e by (simp add: power_int_def)
  also have "\<dots> = of_int (int n * 2 ^ nat (23 - ?e))"
    by simp
  finally have q: "real n / ?u = of_int (int n * 2 ^ nat (23 - ?e))" .
  have "round32 (real n) = of_int (round_even (real n / ?u)) * ?u"
    using n by (simp add: round32_def Let_def)
  also have "\<dots> = (real n / ?u) * ?u"
    by (simp only: q round_even_of_int)
  also have "\<dots> = real n"
    by simp
  finally show ?thesis .
qed

text \<open>The rounding of a number whose binade is known.\<close>

lemma round_ieee_eval:
  assumes "2 powi e \<le> \<bar>x\<bar>" and "\<bar>x\<bar> < 2 powi (e + 1)" and "emin \<le> e"
  shows "round_ieee p emin emax x =
    (let u = 2 powi (e - int p + 1); y = of_int (round_even (x / u)) * u
     in if 2 powi emax \<le> \<bar>y\<bar> then inf_of x else Fin y)"
proof -
  have "(0::real) < 2 powi e" by simp
  with assms(1) have "0 < \<bar>x\<bar>" by linarith
  then have x: "x \<noteq> 0" by simp
  have "\<lfloor>log 2 \<bar>x\<bar>\<rfloor> = e"
    using assms(1,2) by (rule binade_unique)
  then show ?thesis
    using x assms(3) by (simp add: round_ieee_def Let_def max_def)
qed

lemma f32_at:
  assumes "2 powi e \<le> \<bar>x\<bar>" and "\<bar>x\<bar> < 2 powi (e + 1)" and "- 126 \<le> e"
  shows "f32 x =
    (let u = 2 powi (e - 23); y = of_int (round_even (x / u)) * u
     in if 2 powi 128 \<le> \<bar>y\<bar> then inf_of x else Fin y)"
  using round_ieee_eval [OF assms(1,2), of "- 126" 24 128] assms(3) by (simp add: f32_def)

lemma f64_at:
  assumes "2 powi e \<le> \<bar>x\<bar>" and "\<bar>x\<bar> < 2 powi (e + 1)" and "- 1022 \<le> e"
  shows "f64 x =
    (let u = 2 powi (e - 52); y = of_int (round_even (x / u)) * u
     in if 2 powi 1024 \<le> \<bar>y\<bar> then inf_of x else Fin y)"
  using round_ieee_eval [OF assms(1,2), of "- 1022" 53 1024] assms(3) by (simp add: f64_def)

lemma round32_at:
  assumes "2 powi e \<le> x" and "x < 2 powi (e + 1)"
  shows "round32 x = of_int (round_even (x / 2 powi (e - 23))) * 2 powi (e - 23)"
proof -
  have "(0::real) < 2 powi e" by simp
  with assms(1) have x: "0 < x" by linarith
  have "\<lfloor>log 2 x\<rfloor> = e"
    using assms by (rule binade_unique)
  then show ?thesis
    using x by (simp add: round32_def Let_def)
qed

text \<open>In the normal range and below the last binade, float32 rounds as \<open>round32\<close>.\<close>

lemma f32_round32:
  assumes "2 powi (- 126) \<le> x" and "x < 2 powi 127"
  shows "f32 x = Fin (round32 x)"
proof -
  let ?e = "\<lfloor>log 2 x\<rfloor>"
  have "(0::real) < 2 powi (- 126)" by simp
  with assms(1) have x: "0 < x" by linarith
  have lo: "2 powi ?e \<le> x" and hi: "x < 2 powi (?e + 1)"
    using binade [OF x] by simp_all
  have "(2::real) powi (- 126) < 2 powi (?e + 1)"
    using assms(1) hi by linarith
  note low = this
  have emin: "- 126 \<le> ?e"
  proof (rule ccontr)
    assume "\<not> - 126 \<le> ?e"
    then have "?e + 1 \<le> - 126" by linarith
    then have "(2::real) powi (?e + 1) \<le> 2 powi (- 126)"
      by (intro power_int_increasing) simp_all
    with low show False by linarith
  qed
  have "(2::real) powi ?e < 2 powi 127"
    using lo assms(2) by linarith
  then have "?e < 127"
    by (intro power_int_le_imp_less_exp [of "2::real"]) simp_all
  then have "(2::real) powi (?e + 1) \<le> 2 powi 127"
    by (intro power_int_increasing) simp_all
  moreover have "(2::real) powi 127 < 2 powi 128"
    by (intro power_int_strict_increasing) simp_all
  ultimately have up: "round32 x < 2 powi 128"
    using round32_pos_bounds [OF x] by linarith
  have pos: "0 < round32 x"
    using round32_pos [OF x] .
  have r: "round32 x = of_int (round_even (x / 2 powi (?e - 23))) * 2 powi (?e - 23)"
    using x by (simp add: round32_def Let_def)
  have "f32 x = (let u = 2 powi (?e - 23); y = of_int (round_even (x / u)) * u
     in if 2 powi 128 \<le> \<bar>y\<bar> then inf_of x else Fin y)"
    using lo hi x emin by (intro f32_at) simp_all
  then show ?thesis
    using up pos r by (simp add: Let_def)
qed

lemma f32_nat:
  assumes "n < 2 ^ 24"
  shows "f32 (real n) = Fin (real n)"
proof (cases "n = 0")
  case True
  then show ?thesis by (simp add: f32_def round_ieee_def)
next
  case False
  then have "(1::real) \<le> real n" by simp
  moreover have "(2::real) powi (- 126) \<le> 1"
    by (simp add: power_int_minus divide_simps)
  ultimately have lo: "2 powi (- 126) \<le> real n" by linarith
  have "real n < real (2 ^ 24)"
    using assms by (simp only: of_nat_less_iff)
  moreover have "real (2 ^ 24) < 2 powi 127"
    by simp
  ultimately have hi: "real n < 2 powi 127" by linarith
  show ?thesis
    using f32_round32 [OF lo hi] round32_exact [of n] False assms by simp
qed

subsection \<open>Values of float32\<close>

lemma f32_0: "f32 0 = Fin 0"
  by (simp add: f32_def round_ieee_def)

lemma f32_1: "f32 1 = Fin 1"
  by (subst f32_at [where e = 0]) (simp_all add: power_int_minus round_even_def Let_def)

lemma f32_neg_1: "f32 (- 1) = Fin (- 1)"
  by (subst f32_at [where e = 0]) (simp_all add: power_int_minus round_even_def Let_def)

lemma f32_2: "f32 2 = Fin 2"
  by (subst f32_at [where e = 1]) (simp_all add: power_int_minus round_even_def Let_def)

lemma f32_3: "f32 3 = Fin 3"
  by (subst f32_at [where e = 1]) (simp_all add: power_int_minus round_even_def Let_def)

lemma f32_9: "f32 9 = Fin 9"
  by (subst f32_at [where e = 3]) (simp_all add: power_int_minus round_even_def Let_def)

lemma f32_neg_8: "f32 (- 8) = Fin (- 8)"
  by (subst f32_at [where e = 3]) (simp_all add: power_int_minus round_even_def Let_def)

lemma f32_quarter: "f32 (1/4) = Fin (1/4)"
  by (subst f32_at [where e = "- 2"]) (simp_all add: power_int_minus round_even_def Let_def)

lemma f32_half: "f32 (1/2) = Fin (1/2)"
  by (subst f32_at [where e = "- 1"]) (simp_all add: power_int_minus round_even_def Let_def)

lemma f32_three_quarters: "f32 (3/4) = Fin (3/4)"
  by (subst f32_at [where e = "- 1"]) (simp_all add: power_int_minus round_even_def Let_def)

text \<open>
  The float32 numbers next to 0.6 and 0.8 are \<open>5033165 / 2 ^ 23\<close> and
  \<open>13421773 / 2 ^ 24\<close>. Their squares round to \<open>3019899 / 2 ^ 23\<close> and
  \<open>10737419 / 2 ^ 24\<close>, whose sum is \<open>1 + 2 ^ -24\<close>, a tie that rounds to 1.
\<close>

lemma f32_sq_06: "f32 (25332749917225/70368744177664) = Fin (3019899/8388608)"
  by (subst f32_at [where e = "- 2"]) (simp_all add: power_int_minus round_even_def Let_def)

lemma f32_sq_08: "f32 (180143990463529/281474976710656) = Fin (10737419/16777216)"
  by (subst f32_at [where e = "- 1"]) (simp_all add: power_int_minus round_even_def Let_def)

lemma f32_036: "f32 (3019899/8388608) = Fin (3019899/8388608)"
  by (subst f32_at [where e = "- 2"]) (simp_all add: power_int_minus round_even_def Let_def)

lemma f32_tie: "f32 (16777217/16777216) = Fin 1"
  by (subst f32_at [where e = 0]) (simp_all add: power_int_minus round_even_def Let_def)

text \<open>
  The float32 number next to \<open>1 / sqrt 2\<close> is \<open>11863283 / 2 ^ 24\<close>. Its square rounds
  to \<open>16777215 / 2 ^ 25\<close>, and twice that is \<open>1 - 2 ^ -24\<close>, a float32 number.
\<close>

lemma f32_sq_root_half: "f32 (140737483538089/281474976710656) = Fin (16777215/33554432)"
  by (subst f32_at [where e = "- 2"]) (simp_all add: power_int_minus round_even_def Let_def)

lemma f32_near_half: "f32 (16777215/33554432) = Fin (16777215/33554432)"
  by (subst f32_at [where e = "- 2"]) (simp_all add: power_int_minus round_even_def Let_def)

lemma f32_near_one: "f32 (16777215/16777216) = Fin (16777215/16777216)"
  by (subst f32_at [where e = "- 1"]) (simp_all add: power_int_minus round_even_def Let_def)

lemma f32_sq_near_one: "f32 (281474943156225/281474976710656) = Fin (8388607/8388608)"
  by (subst f32_at [where e = "- 1"]) (simp_all add: power_int_minus round_even_def Let_def)

lemma f32_ulp: "f32 (1/8388608) = Fin (1/8388608)"
  by (subst f32_at [where e = "- 23"]) (simp_all add: power_int_minus round_even_def Let_def)

lemma f32_half_ulp: "f32 (- (1/16777216)) = Fin (- (1/16777216))"
  by (subst f32_at [where e = "- 24"]) (simp_all add: power_int_minus round_even_def Let_def)

lemma f32_tiny: "f32 (1/281474976710656) = Fin (1/281474976710656)"
  by (subst f32_at [where e = "- 48"]) (simp_all add: power_int_minus round_even_def Let_def)

lemma f32_tiny2: "f32 (1/140737488355328) = Fin (1/140737488355328)"
  by (subst f32_at [where e = "- 47"]) (simp_all add: power_int_minus round_even_def Let_def)

lemma f32_tiny3: "f32 (3/281474976710656) = Fin (3/281474976710656)"
  by (subst f32_at [where e = "- 47"]) (simp_all add: power_int_minus round_even_def Let_def)

subsection \<open>Operations on \<open>nan\<close>\<close>

lemma add_in_NaN: "add_in r a NaN = NaN"
  by (cases a) simp_all

lemma mul_in_NaN: "mul_in r a NaN = NaN"
  by (cases a) simp_all

subsection \<open>The backend of float32\<close>

lemma fold_sum_zeros:
  assumes "r 0 = Fin 0"
  shows "fold_sum r (replicate n (Fin 0)) = Fin 0"
  unfolding fold_sum_def using assms by (induction n) simp_all

lemma fold_mean_zeros:
  assumes "r 0 = Fin 0"
  shows "fold_mean r (replicate (Suc n) (Fin 0)) = Fin 0"
  using fold_sum_zeros [of r "Suc n"] assms
  by (simp add: fold_mean_def del: replicate_Suc)

lemma ieee_backend_exact_at_0_1:
  assumes "r 0 = Fin 0" and "r 1 = Fin 1"
  shows "exact_at_0_1 (ieee_backend r)"
  using assms fold_sum_zeros [of r] fold_mean_zeros [of r]
  by (simp add: exact_at_0_1_def ieee_backend_def del: replicate_Suc)

lemma ieee_backend_softmax_single:
  assumes "r 0 = Fin 0" and "r 1 = Fin 1"
  shows "softmax_single (ieee_backend r)"
  using assms
  by (simp add: softmax_single_def ieee_backend_def softmax_in_def sub_in_def fold_sum_def)

lemma float32_exact_at_0_1: "exact_at_0_1 float32"
  unfolding float32_def by (intro ieee_backend_exact_at_0_1 f32_0 f32_1)

lemma float32_softmax_single: "softmax_single float32"
  unfolding float32_def by (intro ieee_backend_softmax_single f32_0 f32_1)

lemma float32_fields:
  "rounded float32 = f32" "sum_of float32 = fold_sum f32" "mean_of float32 = fold_mean f32"
  "softmax_of float32 = softmax_in f32"
  by (simp_all add: float32_def ieee_backend_def)

lemma inner_float32: "inner_of float32 r s = sum_prod float32 r s"
  by (simp add: float32_def ieee_backend_def sum_prod_def)

text \<open>
  A logit of \<open>-inf\<close> among finite ones has the softmax weight 0; a row whose maximum
  is infinite has the weights \<open>nan\<close>.
\<close>

lemma softmax_in_minus_infinity: "softmax_in f32 [Fin 0, MInf] = [Fin 1, Fin 0]"
  by (simp add: softmax_in_def sub_in_def fold_sum_def f32_0 f32_1)

lemma softmax_in_infinity: "softmax_in f32 [PInf] = [NaN] \<and> softmax_in f32 [MInf] = [NaN]"
  by (simp add: softmax_in_def sub_in_def fold_sum_def)

text \<open>The inner products of some rows in float32.\<close>

lemma sum_prod_float_06_08:
  "sum_prod float32 [5033165/8388608, 13421773/16777216, 0, 0]
     [5033165/8388608, 13421773/16777216, 0, 0] = Fin 1"
  by (simp add: sum_prod_def float32_fields fold_sum_def
      f32_sq_06 f32_sq_08 f32_0 f32_036 f32_tie f32_1)

lemma sum_prod_float_06_08_0:
  "sum_prod float32 [5033165/8388608, 13421773/16777216, 0]
     [5033165/8388608, 13421773/16777216, 0] = Fin 1"
  by (simp add: sum_prod_def float32_fields fold_sum_def
      f32_sq_06 f32_sq_08 f32_0 f32_036 f32_tie f32_1)

lemma sum_prod_float_halves:
  "sum_prod float32 [1/2, 1/2, 1/2, 1/2] [1/2, 1/2, 1/2, 1/2] = Fin 1"
  by (simp add: sum_prod_def float32_fields fold_sum_def
      f32_quarter f32_half f32_three_quarters f32_1)

lemma sum_prod_float_axis: "sum_prod float32 [0, 0, 1] [0, 0, 1] = Fin 1"
  by (simp add: sum_prod_def float32_fields fold_sum_def f32_0 f32_1)

lemma sum_prod_float_first_axis: "sum_prod float32 [1, 0, 0, 0] [1, 0, 0, 0] = Fin 1"
  by (simp add: sum_prod_def float32_fields fold_sum_def f32_0 f32_1)

lemma sum_prod_float_identity:
  "sum_prod float32 [1, 0, 0, 0, 1, 0, 0, 0, 1] [1, 0, 0, 0, 1, 0, 0, 0, 1] = Fin 3"
  by (simp add: sum_prod_def float32_fields fold_sum_def f32_0 f32_1 f32_2 f32_3)

lemma sum_prod_float_root_half:
  "sum_prod float32 [11863283/16777216, 11863283/16777216, 0, 0]
     [11863283/16777216, 11863283/16777216, 0, 0] = Fin (16777215/16777216)"
  by (simp add: sum_prod_def float32_fields fold_sum_def
      f32_sq_root_half f32_near_half f32_near_one f32_0)

lemma sum_prod_float_root_half_3:
  "sum_prod float32 [11863283/16777216, 11863283/16777216, 0]
     [11863283/16777216, 11863283/16777216, 0] = Fin (16777215/16777216)"
  by (simp add: sum_prod_def float32_fields fold_sum_def
      f32_sq_root_half f32_near_half f32_near_one f32_0)

section \<open>Properties of geodesic_distance\<close>

lemma filter_all_False:
  "\<forall>x\<in>set xs. \<not> P x \<Longrightarrow> filter P xs = []"
  by (induction xs) auto

lemma select_all:
  "length xs = length bs \<Longrightarrow> \<forall>b\<in>set bs. b \<Longrightarrow> map fst (filter snd (zip xs bs)) = xs"
  by (induction xs bs rule: list_induct2) auto

lemma self_dist_in_zero:
  assumes "rounded b 0 = Fin 0" and "rounded b 1 = Fin 1"
    and "\<forall>r\<in>set rs. sum_prod b r r = Fin 1"
  shows "map2 (\<lambda>p t. one_minus_square b (sum_prod b p t)) rs rs
         = replicate (length rs) (Fin 0)"
  using assms(3)
proof (induction rs)
  case Nil
  then show ?case by simp
next
  case (Cons r rs)
  then show ?case using assms(1,2) by (simp add: one_minus_square_def sub_in_def)
qed

text \<open>
  C1. \<open>geodesic_distance(R, R)\<close> is the mean of \<open>1 - (r \<cdot> r) ** 2\<close> over the rows \<open>r\<close> of
  \<open>R\<close>, and the function does not normalise a row. In any float arithmetic in which 0
  and 1 are floats and a mean of zeros is zero, it returns 0, and the number of rows with
  it when the count is requested, for a tensor \<open>R\<close> whose rows all have a first
  component other than -1000 and a computed inner product with themselves of exactly 1.
\<close>

theorem geodesic_distance_in_self_unit:
  assumes "exact_at_0_1 b"
    and "0 < ncols R"
    and "\<forall>r\<in>set (rows R). hd r \<noteq> - 1000 \<and> sum_prod b r r = Fin 1"
  shows "geodesic_distance_in b R R False = Inr (Dist (Fin 0)) \<and>
         geodesic_distance_in b R R True = Inr (DistCount (Fin 0) (length (rows R)))"
proof -
  let ?Rdist = "map2 (\<lambda>p t. one_minus_square b (sum_prod b p t)) (rows R) (rows R)"
  let ?mask = "map (\<lambda>t. hd t \<noteq> - 1000) (rows R)"
  have b: "rounded b 0 = Fin 0" "rounded b 1 = Fin 1"
    and m: "\<And>n. mean_of b (replicate (Suc n) (Fin 0)) = Fin 0"
    using assms(1) by (simp_all add: exact_at_0_1_def)
  have all: "\<forall>x\<in>set ?mask. x"
    using assms(3) by auto
  then have cnt: "filter (\<lambda>b. b) ?mask = ?mask"
    by (simp add: filter_id_conv)
  have Rd: "?Rdist = replicate (length (rows R)) (Fin 0)"
    using assms(3) by (intro self_dist_in_zero b) simp
  have sel: "map fst (filter snd (zip ?Rdist ?mask)) = ?Rdist"
    using all by (intro select_all) simp_all
  show ?thesis
  proof (cases "rows R")
    case Nil
    then show ?thesis
      using assms(2) by (simp add: geodesic_distance_in_def)
  next
    case (Cons r rs)
    then have "length (rows R) = Suc (length rs)"
      by simp
    then have "mean_of b ?Rdist = Fin 0"
      using m [of "length rs"] by (simp only: Rd)
    then show ?thesis
      using assms(2) cnt sel Cons
      by (simp add: geodesic_distance_in_def Let_def del: map_map)
  qed
qed

text \<open>
  C1 in float32, at the quaternion of the float32 numbers next to 0.6 and 0.8, whose
  exact norm is not 1, and at the quaternion of four halves.
\<close>

theorem geodesic_distance_in_self_unit_witness:
  "geodesic_distance_in float32 float_quats float_quats False = Inr (Dist (Fin 0)) \<and>
   geodesic_distance_in float32 float_quats float_quats True = Inr (DistCount (Fin 0) 2)"
proof -
  have c: "0 < ncols float_quats"
    by (simp add: float_quats_def)
  have a: "\<forall>r\<in>set (rows float_quats). hd r \<noteq> - 1000 \<and> sum_prod float32 r r = Fin 1"
    by (simp add: float_quats_def sum_prod_float_06_08 sum_prod_float_halves)
  have "length (rows float_quats) = 2"
    by (simp add: float_quats_def)
  then show ?thesis
    using geodesic_distance_in_self_unit [OF float32_exact_at_0_1 c a] by simp
qed

text \<open>
  The specification lists a flattened matrix among the encodings of a rotation. The
  identity matrix, flattened, has the inner product 3 with itself: its distance to
  itself is \<open>1 - 9 = -8\<close>, in float32 as in exact arithmetic.
\<close>

theorem geodesic_distance_in_flat_identity:
  "geodesic_distance_in float32 flat_identity flat_identity False = Inr (Dist (Fin (- 8)))"
  by (simp add: geodesic_distance_in_def flat_identity_def shape2_def sum_prod_float_identity
      float32_fields one_minus_square_def sub_in_def f32_9 f32_neg_8 fold_mean_def fold_sum_def)

text \<open>
  A unit quaternion rounded to float32 need not have the computed inner product 1. For
  the quaternion next to \<open>(1, 1, 0, 0) / sqrt 2\<close> it is \<open>1 - 2 ^ -24\<close>, and the distance of
  that quaternion to itself is \<open>2 ^ -23\<close>.
\<close>

lemma geodesic_distance_in_float_unit_quaternion:
  "geodesic_distance_in float32
     \<lparr>ncols = 4, rows = [[11863283/16777216, 11863283/16777216, 0, 0]]\<rparr>
     \<lparr>ncols = 4, rows = [[11863283/16777216, 11863283/16777216, 0, 0]]\<rparr> False
   = Inr (Dist (Fin (1/8388608)))"
  by (simp add: geodesic_distance_in_def shape2_def sum_prod_float_root_half float32_fields
      one_minus_square_def sub_in_def f32_sq_near_one f32_ulp fold_mean_def fold_sum_def)

text \<open>
  A product that overflows makes the distance infinite: for the row
  \<open>(2 ^ 64, 0, 0, 0)\<close> the inner product is \<open>inf\<close> and the distance \<open>-inf\<close>.
\<close>

lemma f32_huge: "f32 340282366920938463463374607431768211456 = PInf"
  by (subst f32_at [where e = 128])
    (simp_all add: power_int_minus round_even_def Let_def inf_of_def)

lemma geodesic_distance_in_overflow:
  "geodesic_distance_in float32
     \<lparr>ncols = 4, rows = [[2 ^ 64, 0, 0, 0]]\<rparr> \<lparr>ncols = 4, rows = [[2 ^ 64, 0, 0, 0]]\<rparr> False
   = Inr (Dist MInf)"
  by (simp add: geodesic_distance_in_def shape2_def sum_prod_def float32_fields
      one_minus_square_def sub_in_def fold_mean_def fold_sum_def f32_0 f32_huge)

text \<open>
  A row whose target carries the sentinel does not count: of two rows, the first at a
  right angle to its target and the second without a pose, the mean is the distance 1
  of the first.
\<close>

lemma geodesic_distance_in_masked_example:
  "geodesic_distance_in float32
     \<lparr>ncols = 4, rows = [[0, 1, 0, 0], [5, 5, 5, 5]]\<rparr>
     \<lparr>ncols = 4, rows = [[1, 0, 0, 0], [- 1000, 0, 0, 0]]\<rparr> True
   = Inr (DistCount (Fin 1) 1)"
  by (simp add: geodesic_distance_in_def shape2_def sum_prod_def float32_fields
      one_minus_square_def sub_in_def fold_mean_def fold_sum_def f32_0 f32_1)

text \<open>
  C4. When the two tensors have one shape and the first component of every target row
  is the sentinel -1000, no sample is valid: \<open>geodesic_distance\<close> returns 0, and the
  pair (0, 0) when the count is requested; it does not fail.
\<close>

theorem geodesic_distance_no_valid_sample:
  assumes "shape2 p = shape2 t"
    and "0 < ncols t"
    and "\<forall>r\<in>set (rows t). hd r = - 1000"
  shows "geodesic_distance p t False = Inr (GD 0) \<and>
         geodesic_distance p t True = Inr (GDCount 0 0)"
proof -
  have "filter (\<lambda>b. b) (map (\<lambda>r. hd r \<noteq> - 1000) (rows t)) = []"
    using assms(3) by (intro filter_all_False) auto
  then show ?thesis
    using assms(1,2) by (simp add: geodesic_distance_def)
qed

text \<open>C4 at two predictions whose targets both carry the sentinel.\<close>

theorem geodesic_distance_no_valid_sample_witness:
  "geodesic_distance quat_rows no_pose False = Inr (GD 0) \<and>
   geodesic_distance quat_rows no_pose True = Inr (GDCount 0 0)"
proof -
  have s: "shape2 quat_rows = shape2 no_pose"
    by (simp add: shape2_def quat_rows_def no_pose_def)
  have c: "0 < ncols no_pose"
    by (simp add: no_pose_def)
  have a: "\<forall>r\<in>set (rows no_pose). hd r = - 1000"
    by (simp add: no_pose_def)
  show ?thesis
    by (rule geodesic_distance_no_valid_sample [OF s c a])
qed

text \<open>The guarded branch is the same in every float arithmetic.\<close>

lemma geodesic_distance_in_no_valid_sample:
  assumes "shape2 p = shape2 t"
    and "0 < ncols t"
    and "\<forall>r\<in>set (rows t). hd r = - 1000"
  shows "geodesic_distance_in b p t False = Inr (Dist (Fin 0)) \<and>
         geodesic_distance_in b p t True = Inr (DistCount (Fin 0) 0)"
proof -
  have "filter (\<lambda>b. b) (map (\<lambda>r. hd r \<noteq> - 1000) (rows t)) = []"
    using assms(3) by (intro filter_all_False) auto
  then show ?thesis
    using assms(1,2) by (simp add: geodesic_distance_in_def)
qed

section \<open>Properties of loss_flat\<close>

lemma collect_Inr:
  "collect (map Inr xs) = Inr xs"
  by (induction xs) auto

lemma edge_cos_in_unit_pair:
  assumes "\<forall>nb\<in>set norms. unit_pair_in b nb"
    and "i < 3"
  shows "edge_cos_in b norms (map (ff_col i) (ff two_faces))
         = Inr (map (\<lambda>nb. [Fin 1, Fin 1]) norms)"
proof -
  have "(\<lambda>norm1. case collect (map (index_select norm1) (map (ff_col i) (ff two_faces))) of
            Inl e \<Rightarrow> Inl e
          | Inr norm2 \<Rightarrow>
              (case broadcast norm1 norm2 of
                 Inl e \<Rightarrow> Inl e
               | Inr pairs \<Rightarrow> Inr (map (\<lambda>(n1, n2). sum_prod b n1 n2) pairs))) nb
          = Inr [Fin 1, Fin 1]"
    if "unit_pair_in b nb" for nb
    using that assms(2)
    by (auto simp: unit_pair_in_def two_faces_def ff_col_def index_select_def broadcast_def
        split: list.splits)
  then have "map (\<lambda>norm1. case collect (map (index_select norm1) (map (ff_col i) (ff two_faces))) of
            Inl e \<Rightarrow> Inl e
          | Inr norm2 \<Rightarrow>
              (case broadcast norm1 norm2 of
                 Inl e \<Rightarrow> Inl e
               | Inr pairs \<Rightarrow> Inr (map (\<lambda>(n1, n2). sum_prod b n1 n2) pairs))) norms
      = map Inr (map (\<lambda>nb. [Fin 1, Fin 1]) norms)"
    using assms(1) by simp
  then show ?thesis
    by (simp only: edge_cos_in_def collect_Inr)
qed

lemma edge_term_in_zero:
  assumes "exact_at_0_1 b" and "norms \<noteq> []"
  shows "mean_of b (map (minus_one_squared b) (concat (map (\<lambda>nb. [Fin 1, Fin 1]) norms)))
         = Fin 0"
proof -
  have b: "rounded b 0 = Fin 0"
    and m: "\<And>n. mean_of b (replicate (Suc n) (Fin 0)) = Fin 0"
    using assms(1) by (simp_all add: exact_at_0_1_def)
  have "map (minus_one_squared b) (concat (map (\<lambda>nb. [Fin 1, Fin 1]) norms))
        = replicate (2 * length norms) (Fin 0)"
    using b by (induction norms) (simp_all add: minus_one_squared_def sub_in_def)
  moreover obtain k where "2 * length norms = Suc k"
    using assms(2) by (cases norms) auto
  ultimately show ?thesis
    using m [of k] by simp
qed

text \<open>
  C8. Take a mesh of two faces, each the neighbour of the other across every edge, and a
  batch that is not empty, in which both faces of an element have one normal, whose
  computed inner product with itself is exactly 1. In any float arithmetic in which 0
  and 1 are floats and a mean of zeros is zero, every cosine is 1, every one of the
  three means is 0, and \<open>loss_flat\<close> returns 0.
\<close>

theorem loss_flat_in_two_faces_zero:
  assumes "exact_at_0_1 b"
    and "ff m = [(1, 1, 1), (0, 0, 0)]"
    and "length (faces m) = 2"
    and "norms \<noteq> []"
    and "\<forall>nb\<in>set norms. unit_pair_in b nb"
  shows "loss_flat_in b m norms = Inr (Fin 0)"
proof -
  have z: "rounded b 0 = Fin 0" "rounded b 1 = Fin 1"
    using assms(1) by (simp_all add: exact_at_0_1_def)
  have ffm: "ff m = ff two_faces"
    using assms(2) by (simp add: two_faces_def)
  have e: "edge_cos_in b norms (map (ff_col i) (ff m)) = Inr (map (\<lambda>nb. [Fin 1, Fin 1]) norms)"
    if "i < 3" for i
    using edge_cos_in_unit_pair [OF assms(5) that] ffm by simp
  have "flat_loop_in b m norms [0, 1, 2] (Fin 0) = Inr (Fin 0)"
    using e [of 0] e [of 1] e [of 2] edge_term_in_zero [OF assms(1,4)] z
    by simp
  then show ?thesis
    using assms(3) z by (simp add: loss_flat_in_def)
qed

text \<open>
  C8 in float32, at a batch of two: the normal (0, 0, 1), and the normal of the float32
  numbers next to 0.6 and 0.8, whose exact norm is not 1.
\<close>

theorem loss_flat_in_two_faces_zero_witness:
  "loss_flat_in float32 two_faces
     [[[0, 0, 1], [0, 0, 1]],
      [[5033165/8388608, 13421773/16777216, 0], [5033165/8388608, 13421773/16777216, 0]]]
   = Inr (Fin 0)"
proof -
  have "\<forall>nb\<in>set [[[0, 0, 1], [0, 0, 1]],
      [[5033165/8388608, 13421773/16777216, 0], [5033165/8388608, 13421773/16777216, 0::real]]].
      unit_pair_in float32 nb"
    by (simp add: unit_pair_in_def sum_prod_float_axis sum_prod_float_06_08_0)
  then show ?thesis
    by (intro loss_flat_in_two_faces_zero float32_exact_at_0_1) (simp_all add: two_faces_def)
qed

text \<open>
  On an empty batch every normal of the batch is a unit normal, and every
  \<open>torch.mean\<close> is \<open>nan\<close>: so is the loss.
\<close>

theorem loss_flat_in_empty_batch: "loss_flat_in float32 two_faces [] = Inr NaN"
  by (simp add: loss_flat_in_def edge_cos_in_def float32_fields fold_mean_def fold_sum_def
      two_faces_def f32_1)

text \<open>So it is in float32 for every mesh of the claim.\<close>

lemma loss_flat_in_empty_batch_any_mesh:
  assumes "ff m = [(1, 1, 1), (0, 0, 0)]" and "length (faces m) = 2"
  shows "loss_flat_in float32 m [] = Inr NaN"
  using assms
  by (simp add: loss_flat_in_def edge_cos_in_def float32_fields fold_mean_def fold_sum_def)

text \<open>
  A unit normal rounded to float32 need not have the computed inner product 1. For the
  normal next to \<open>(1, 1, 0) / sqrt 2\<close> it is \<open>1 - 2 ^ -24\<close>: every term \<open>(cos - 1) ** 2\<close> is
  \<open>2 ^ -48\<close>, and the loss is \<open>3 * 2 ^ -48\<close>.
\<close>

lemma loss_flat_in_float_unit_normal:
  "loss_flat_in float32 two_faces
     [[[11863283/16777216, 11863283/16777216, 0], [11863283/16777216, 11863283/16777216, 0]]]
   = Inr (Fin (3/281474976710656))"
  by (simp add: loss_flat_in_def edge_cos_in_def two_faces_def ff_col_def index_select_def
      broadcast_def sum_prod_float_root_half_3 minus_one_squared_def sub_in_def float32_fields
      fold_mean_def fold_sum_def f32_half_ulp f32_tiny f32_tiny2 f32_tiny3 f32_1)

text \<open>
  Two faces with normals at a right angle have the cosine 0 across every edge: every
  mean is 1 and the loss is 3.
\<close>

lemma loss_flat_in_right_angle:
  "loss_flat_in float32 two_faces [[[1, 0, 0], [0, 1, 0]]] = Inr (Fin 3)"
  by (simp add: loss_flat_in_def edge_cos_in_def two_faces_def ff_col_def index_select_def
      broadcast_def sum_prod_def minus_one_squared_def sub_in_def float32_fields
      fold_mean_def fold_sum_def f32_0 f32_1 f32_neg_1 f32_2 f32_3)

section \<open>Properties of agreement_score\<close>

text \<open>
  The float32 numbers next to \<open>cos 0.5\<close> and \<open>sin 0.5\<close> are \<open>230053 / 2 ^ 18\<close> and
  \<open>4021713 / 2 ^ 23\<close>. The sum of their squares is 1 in float32, whether each square
  is rounded before the sum or one of them is fused into it.
\<close>

lemma f32_sq_cos: "f32 (52924382809/68719476736) = Fin (403781/524288)"
  by (subst f32_at [where e = "- 1"]) (simp_all add: power_int_minus round_even_def Let_def)

lemma f32_sq_sin: "f32 (16174175454369/70368744177664) = Fin (120507/524288)"
  by (subst f32_at [where e = "- 3"]) (simp_all add: power_int_minus round_even_def Let_def)

lemma f32_cos_part: "f32 (403781/524288) = Fin (403781/524288)"
  by (subst f32_at [where e = "- 1"]) (simp_all add: power_int_minus round_even_def Let_def)

lemma f32_fused_cos: "f32 (68719476313/68719476736) = Fin 1"
  by (subst f32_at [where e = "- 1"]) (simp_all add: power_int_minus round_even_def Let_def)

lemma f32_fused_sin: "f32 (70368743883937/70368744177664) = Fin 1"
  by (subst f32_at [where e = "- 1"]) (simp_all add: power_int_minus round_even_def Let_def)

lemma sum_prod_float_cos_sin:
  "sum_prod float32 [230053/262144, 4021713/8388608, 0, 0]
     [230053/262144, 4021713/8388608, 0, 0] = Fin 1"
  by (simp add: sum_prod_def float32_fields fold_sum_def
      f32_sq_cos f32_sq_sin f32_0 f32_cos_part f32_1)

lemma fused_float_cos_sin:
  "add_in f32 (f32 (4021713/8388608 * (4021713/8388608)))
      (Fin (230053/262144 * (230053/262144))) = Fin 1 \<and>
   add_in f32 (f32 (230053/262144 * (230053/262144)))
      (Fin (4021713/8388608 * (4021713/8388608))) = Fin 1"
  by (simp add: f32_sq_cos f32_sq_sin f32_fused_cos f32_fused_sin)

text \<open>
  The temperature 0.01 is \<open>5368709 / 2 ^ 29\<close> in float32. The confidence 0.5 has the
  logit 50; the confidence \<open>2 ^ 124\<close>, about 2.1e37, overflows.
\<close>

lemma f32_temperature: "f32 (1/100) = Fin (5368709/536870912)"
  by (subst f32_at [where e = "- 7"]) (simp_all add: power_int_minus round_even_def Let_def)

lemma f32_logit: "f32 (268435456/5368709) = Fin 50"
  by (subst f32_at [where e = 5]) (simp_all add: power_int_minus round_even_def Let_def)

lemma f32_overflow: "f32 (11417981541647679048466287755595961091061972992/5368709) = PInf"
  by (subst f32_at [where e = 130])
    (simp_all add: power_int_minus round_even_def Let_def inf_of_def)

lemma agreement_row_in_single:
  assumes "exact_at_0_1 b" and "softmax_single b"
    and "one_finite_logit b temperature q" and "one_unit_hypothesis_in b rs"
  shows "agreement_score_in b [q] [rs] temperature = [Fin 0]"
proof -
  obtain x where q: "q = [x]"
    and fin: "finite_fl (div_in (rounded b) (Fin x) (rounded b temperature))"
    using assms(3) by (auto simp: one_finite_logit_def split: list.splits)
  obtain r where rs: "rs = [r]" and r: "inner_of b r r = Fin 1"
    using assms(4) by (auto simp: one_unit_hypothesis_in_def split: list.splits)
  have b: "rounded b 0 = Fin 0" "rounded b 1 = Fin 1" "sum_of b [Fin 0] = Fin 0"
    using assms(1) spec [of "\<lambda>n. sum_of b (replicate n (Fin 0)) = Fin 0" 1]
    by (simp_all add: exact_at_0_1_def)
  have s: "\<And>y. softmax_of b [Fin y] = [Fin 1]"
    using assms(2) by (simp add: softmax_single_def)
  from fin obtain l where l: "div_in (rounded b) (Fin x) (rounded b temperature) = Fin l"
    by (auto simp: finite_fl_def split: fl.splits)
  show ?thesis
    by (simp add: agreement_score_in_def q rs r l s b one_minus_square_def sub_in_def)
qed

lemma agreement_score_in_Cons:
  "agreement_score_in b (q # qs) (rs # rss) temperature =
   agreement_score_in b [q] [rs] temperature @ agreement_score_in b qs rss temperature"
  by (simp add: agreement_score_in_def Let_def)

text \<open>
  C3. With one hypothesis per batch element the softmax weight is 1 and the only pair
  is the hypothesis with itself, at the distance \<open>1 - (r \<cdot> r) ** 2\<close>. In any float
  arithmetic in which 0 and 1 are floats, a sum of zeros is zero and the softmax of one
  finite logit is 1, \<open>agreement_score\<close> is zero at every batch position when every
  confidence has a finite logit (the temperature is not zero and the division does not
  overflow) and every hypothesis has a computed inner product with itself of exactly 1.
\<close>

theorem agreement_score_in_single_unit_hypothesis:
  assumes "exact_at_0_1 b" and "softmax_single b"
    and "length iou_or_miou = length rotations"
    and "\<forall>q\<in>set iou_or_miou. one_finite_logit b temperature q"
    and "\<forall>rs\<in>set rotations. one_unit_hypothesis_in b rs"
  shows "agreement_score_in b iou_or_miou rotations temperature =
         replicate (length rotations) (Fin 0)"
  using assms(3,4,5)
proof (induction iou_or_miou rotations rule: list_induct2)
  case Nil
  then show ?case by (simp add: agreement_score_in_def)
next
  case (Cons q qs rs rss)
  then have "agreement_score_in b qs rss temperature = replicate (length rss) (Fin 0)"
    by simp
  moreover have "agreement_score_in b [q] [rs] temperature = [Fin 0]"
    using Cons.prems by (intro agreement_row_in_single assms(1,2)) simp_all
  ultimately show ?case
    by (subst agreement_score_in_Cons) simp
qed

text \<open>
  C3 in float32, at the default temperature 0.01 and a batch of two: the confidences 0.5
  and 0, the quaternion of the float32 numbers next to \<open>cos 0.5\<close> and \<open>sin 0.5\<close>,
  whose exact norm is not 1, and the quaternion of four halves.
\<close>

theorem agreement_score_in_single_unit_hypothesis_witness:
  "agreement_score_in float32 [[1/2], [0]]
     [[[230053/262144, 4021713/8388608, 0, 0]], [[1/2, 1/2, 1/2, 1/2]]] (1/100)
   = [Fin 0, Fin 0]"
proof -
  have q: "\<forall>q\<in>set [[1/2], [0::real]]. one_finite_logit float32 (1/100) q"
    by (simp add: one_finite_logit_def finite_fl_def float32_fields f32_temperature f32_logit
        f32_0)
  have h: "\<forall>rs\<in>set [[[230053/262144, 4021713/8388608, 0, 0]], [[1/2, 1/2, 1/2, 1/2::real]]].
      one_unit_hypothesis_in float32 rs"
    by (simp add: one_unit_hypothesis_in_def inner_float32 sum_prod_float_cos_sin
        sum_prod_float_halves)
  show ?thesis
    using agreement_score_in_single_unit_hypothesis
      [OF float32_exact_at_0_1 float32_softmax_single _ q h]
    by (simp add: numeral_2_eq_2)
qed

text \<open>
  The identity matrix, flattened, is one hypothesis with the inner product 3 with
  itself: the agreement score is \<open>1 - 9 = -8\<close>, not 0.
\<close>

theorem agreement_score_in_flat_identity:
  "agreement_score_in float32 [[1/2]] [[[1, 0, 0, 0, 1, 0, 0, 0, 1]]] (1/100) = [Fin (- 8)]"
  by (simp add: agreement_score_in_def inner_float32 sum_prod_float_identity float32_fields
      f32_temperature f32_logit softmax_in_def one_minus_square_def sub_in_def fold_sum_def
      f32_0 f32_1 f32_9 f32_neg_8)

text \<open>
  In float32, one confidence whose logit is not finite gives \<open>nan\<close>, whatever the
  hypothesis: the softmax subtracts the maximum of the row, and \<open>inf - inf\<close> is \<open>nan\<close>.
  So it is for the confidence \<open>2 ^ 124\<close> at the temperature 0.01.
\<close>

lemma agreement_score_in_not_finite_logit:
  assumes "\<not> finite_fl (div_in f32 (Fin x) (f32 temperature))"
  shows "agreement_score_in float32 [[x]] [[r]] temperature = [NaN]"
proof -
  let ?l = "div_in f32 (Fin x) (f32 temperature)"
  have "softmax_in f32 [?l] = [NaN]"
    using assms
    by (cases ?l) (simp_all add: finite_fl_def softmax_in_def sub_in_def fold_sum_def)
  then show ?thesis
    by (simp add: agreement_score_in_def float32_fields fold_sum_def mul_in_NaN)
qed

lemma agreement_score_in_overflow:
  "agreement_score_in float32 [[2 ^ 124]] [[[1, 0, 0, 0]]] (1/100) = [NaN]"
  by (simp add: agreement_score_in_def inner_float32 sum_prod_float_first_axis float32_fields
      f32_temperature f32_overflow softmax_in_def one_minus_square_def sub_in_def fold_sum_def
      f32_0 f32_1)

text \<open>
  A unit quaternion rounded to float32 need not have the computed inner product 1: the
  quaternion next to \<open>(1, 1, 0, 0) / sqrt 2\<close> has the agreement score \<open>2 ^ -23\<close>.
\<close>

lemma agreement_score_in_float_unit_quaternion:
  "agreement_score_in float32 [[1/2]] [[[11863283/16777216, 11863283/16777216, 0, 0]]] (1/100)
   = [Fin (1/8388608)]"
  by (simp add: agreement_score_in_def inner_float32 sum_prod_float_root_half float32_fields
      f32_temperature f32_logit softmax_in_def one_minus_square_def sub_in_def fold_sum_def
      f32_0 f32_1 f32_sq_near_one f32_ulp)

text \<open>
  Two hypotheses at a right angle with equal confidences have the weights 1/2 and the
  distance 1 to each other: the agreement score is 1/2.
\<close>

lemma agreement_score_in_two_hypotheses:
  "agreement_score_in float32 [[0, 0]] [[[1, 0, 0, 0], [0, 1, 0, 0]]] (1/100) = [Fin (1/2)]"
  by (simp add: agreement_score_in_def inner_float32 sum_prod_def float32_fields
      f32_temperature softmax_in_def one_minus_square_def sub_in_def fold_sum_def
      f32_0 f32_1 f32_2 f32_half f32_quarter)

section \<open>Properties of mean_iou_noreduce\<close>

subsection \<open>Counting the pixels\<close>

lemma indicator_sum:
  "sum_list (map (\<lambda>b. if b then 1 else 0) bs) = real (length (filter (\<lambda>b. b) bs))"
  by (induction bs) auto

lemma bsum_count: "bsum img = real (length (filter (\<lambda>b. b) (concat img)))"
  by (simp add: bsum_def indicator_sum)

lemma row_and_le_or:
  "length (filter (\<lambda>b. b) (map2 (\<and>) a b)) \<le> length (filter (\<lambda>b. b) (map2 (\<or>) a b))"
proof (induction a arbitrary: b)
  case Nil
  then show ?case by simp
next
  case (Cons x xs)
  then show ?case
    by (cases b) (auto intro: le_SucI)
qed

lemma image_and_le_or:
  "length (filter (\<lambda>b. b) (concat (map2 (map2 (\<and>)) p r)))
   \<le> length (filter (\<lambda>b. b) (concat (map2 (map2 (\<or>)) p r)))"
proof (induction p arbitrary: r)
  case Nil
  then show ?case by simp
next
  case (Cons x xs)
  show ?case
  proof (cases r)
    case Nil
    then show ?thesis by simp
  next
    case (Cons y ys)
    then show ?thesis
      using Cons.IH [of ys] row_and_le_or [of x y] by simp
  qed
qed

lemma image_zip_pixels:
  "length (concat (map2 (map2 f) p r)) \<le> length (concat p)"
proof (induction p arbitrary: r)
  case Nil
  then show ?case by simp
next
  case (Cons x xs)
  show ?case
  proof (cases r)
    case Nil
    then show ?thesis by simp
  next
    case (Cons y ys)
    then show ?thesis
      using Cons.IH [of ys] by simp
  qed
qed

text \<open>
  The intersection and the union of two thresholded images are counts of pixels: the
  first is at most the second, which is at most the size of the image.
\<close>

lemma counts:
  fixes p r :: "real list list"
  defines "P \<equiv> gt_half p" and "R \<equiv> gt_half r"
  shows "\<exists>i u. bsum (map2 (map2 (\<and>)) P R) = real i \<and> bsum (map2 (map2 (\<or>)) P R) = real u
           \<and> i \<le> u \<and> u \<le> pixels p"
proof -
  let ?i = "length (filter (\<lambda>b. b) (concat (map2 (map2 (\<and>)) P R)))"
  let ?u = "length (filter (\<lambda>b. b) (concat (map2 (map2 (\<or>)) P R)))"
  have "?u \<le> length (concat (map2 (map2 (\<or>)) P R))"
    by (rule length_filter_le)
  also have "\<dots> \<le> length (concat P)"
    by (rule image_zip_pixels)
  also have "\<dots> = pixels p"
    by (simp add: P_def gt_half_def pixels_def length_concat comp_def)
  finally have "?u \<le> pixels p" .
  then show ?thesis
    using image_and_le_or [of P R] bsum_count by blast
qed

lemma mean_iou_noreduce_in_Cons:
  "mean_iou_noreduce_in rnd (p # ps) (r # rs) =
    (let P = gt_half p; R = gt_half r;
         d = rnd (bsum (map2 (map2 (\<or>)) P R) + rnd (1/1000000))
     in if d = 0 then None else Some (rnd (bsum (map2 (map2 (\<and>)) P R) / d)))
    # mean_iou_noreduce_in rnd ps rs"
  by (simp add: mean_iou_noreduce_in_def Let_def)

lemma mean_iou_noreduce_in_Nil:
  "mean_iou_noreduce_in rnd [] rs = []" "mean_iou_noreduce_in rnd ps [] = []"
  by (simp_all add: mean_iou_noreduce_in_def)

subsection \<open>In exact arithmetic\<close>

lemma exact_entry:
  assumes "i \<le> u"
  shows "real u + 1/1000000 \<noteq> 0 \<and> 0 \<le> real i / (real u + 1/1000000)
         \<and> real i / (real u + 1/1000000) < 1"
proof -
  have d: "0 < real u + 1/1000000"
    by (simp add: add_nonneg_pos)
  have "real i < real u + 1/1000000"
    using assms by (simp add: add_strict_increasing2)
  then show ?thesis
    using d by (simp add: pos_divide_less_eq)
qed

text \<open>
  Without rounding, every entry of the result is a number from 0 up to, but not
  including, 1.
\<close>

lemma mean_iou_noreduce_exact_below_one:
  "list_all below_one (mean_iou_noreduce_in (\<lambda>x. x) alpha_pred alpha_real)"
proof (induction alpha_pred arbitrary: alpha_real)
  case Nil
  then show ?case by (simp add: mean_iou_noreduce_in_Nil)
next
  case (Cons p ps)
  show ?case
  proof (cases alpha_real)
    case Nil
    then show ?thesis by (simp add: mean_iou_noreduce_in_Nil)
  next
    case (Cons r rs)
    from counts [of p r] obtain i u where
      iu: "bsum (map2 (map2 (\<and>)) (gt_half p) (gt_half r)) = real i"
        "bsum (map2 (map2 (\<or>)) (gt_half p) (gt_half r)) = real u"
        "i \<le> u" "u \<le> pixels p"
      by blast
    from exact_entry [OF iu(3)] Cons.IH [of rs] show ?thesis
      by (simp add: Cons mean_iou_noreduce_in_Cons iu Let_def below_one_def)
  qed
qed

subsection \<open>In float32\<close>

text \<open>The float32 number next to 1e-6 is positive and at most \<open>2 ^ -19\<close>.\<close>

lemma round32_epsilon: "0 < round32 (1/1000000) \<and> round32 (1/1000000) \<le> 1/524288"
proof -
  have e: "\<lfloor>log 2 (1/1000000 :: real)\<rfloor> = - 20"
    by (rule binade_unique) (simp_all add: power_int_minus)
  have "round32 (1/1000000) \<le> 2 powi (\<lfloor>log 2 (1/1000000 :: real)\<rfloor> + 1)"
    using round32_pos_bounds [of "1/1000000"] by simp
  then have "round32 (1/1000000) \<le> 2 powi (- 19)"
    by (simp only: e) simp
  then show ?thesis
    using round32_pos [of "1/1000000"] by (simp add: power_int_minus)
qed

text \<open>
  Next to 64 the float32 numbers are \<open>2 ^ -17\<close> apart, more than twice 1e-6: the sum
  \<open>64 + 1e-6\<close> rounds to 64.
\<close>

lemma round32_absorbs_epsilon: "round32 (64 + round32 (1/1000000)) = 64"
proof -
  define c where "c = round32 (1/1000000)"
  have c: "0 < c" "c \<le> 1/524288"
    using round32_epsilon by (simp_all add: c_def)
  have e: "\<lfloor>log 2 (64 + c)\<rfloor> = 6"
    using c by (intro binade_unique) simp_all
  have q: "(64 + c) / 2 powi (6 - 23) = 8388608 + c * 131072"
    by (simp add: power_int_minus field_simps)
  have f: "\<lfloor>8388608 + c * 131072\<rfloor> = 8388608"
    using c by (intro floor_unique) simp_all
  have "round_even (8388608 + c * 131072) = 8388608"
    using c by (simp add: round_even_def f Let_def)
  then have "round32 (64 + c) = 8388608 * 2 powi (6 - 23)"
    using c by (simp add: round32_def e q Let_def del: power_int_diff)
  then show ?thesis
    by (simp add: c_def power_int_minus)
qed

text \<open>One entry of the float32 result, from the two counts.\<close>

lemma f32_entry:
  assumes "i \<le> u" and "u < 2 ^ 24"
  defines "d \<equiv> round32 (real u + round32 (1/1000000))"
  shows "d \<noteq> 0 \<and> 0 \<le> round32 (real i / d) \<and> round32 (real i / d) \<le> 1"
proof -
  have c: "0 < round32 (1/1000000)"
    by (rule round32_pos) simp
  then have s: "0 < real u + round32 (1/1000000)"
    by (simp add: add_nonneg_pos)
  then have d: "0 < d"
    unfolding d_def by (rule round32_pos)
  have one: "round32 1 = 1"
    using round32_exact [of 1] by simp
  have ud: "real u \<le> d"
  proof (cases "u = 0")
    case True
    then show ?thesis using d by simp
  next
    case False
    then have "round32 (real u) \<le> d"
      unfolding d_def using c by (intro round32_mono) simp_all
    then show ?thesis
      using round32_exact [of u] False assms(2) by simp
  qed
  show ?thesis
  proof (cases "i = 0")
    case True
    then show ?thesis using d by (simp add: round32_def)
  next
    case False
    then have q: "0 < real i / d"
      using d by simp
    have "real i / d \<le> 1"
      using assms(1) ud d by (simp add: pos_divide_le_eq)
    then have "round32 (real i / d) \<le> round32 1"
      using q by (intro round32_mono)
    then show ?thesis
      using d round32_pos [OF q] one by simp
  qed
qed

text \<open>
  C10, as the code has it. On images of fewer than \<open>2 ^ 24\<close> pixels every entry of the
  float32 result of \<open>mean_iou_noreduce\<close> is a number from 0 to 1, 1 included: the
  intersection is at most the union and the denominator is positive, so that nothing is
  divided by zero.
\<close>

theorem mean_iou_noreduce_f32_in_unit_interval:
  assumes "list_all (\<lambda>img. pixels img < 2 ^ 24) alpha_pred"
  shows "list_all in_unit_interval (mean_iou_noreduce_f32 alpha_pred alpha_real)"
  using assms unfolding mean_iou_noreduce_f32_def
proof (induction alpha_pred arbitrary: alpha_real)
  case Nil
  then show ?case by (simp add: mean_iou_noreduce_in_Nil)
next
  case (Cons p ps)
  show ?case
  proof (cases alpha_real)
    case Nil
    then show ?thesis by (simp add: mean_iou_noreduce_in_Nil)
  next
    case (Cons r rs)
    from counts [of p r] obtain i u where
      iu: "bsum (map2 (map2 (\<and>)) (gt_half p) (gt_half r)) = real i"
        "bsum (map2 (map2 (\<or>)) (gt_half p) (gt_half r)) = real u"
        "i \<le> u" "u \<le> pixels p"
      by blast
    have "u < 2 ^ 24"
      using iu(4) Cons.prems by simp
    from f32_entry [OF iu(3) this] Cons.IH [of rs] Cons.prems show ?thesis
      by (simp add: Cons mean_iou_noreduce_in_Cons iu Let_def in_unit_interval_def)
  qed
qed

text \<open>C10 at an image of 64 pixels against an image of one pixel.\<close>

theorem mean_iou_noreduce_f32_in_unit_interval_witness:
  "list_all (\<lambda>img. pixels img < 2 ^ 24) [full_mask] \<and>
   list_all in_unit_interval (mean_iou_noreduce_f32 [full_mask] [[[0]]])"
proof -
  have p: "list_all (\<lambda>img. pixels img < 2 ^ 24) [full_mask]"
    by (simp add: pixels_def full_mask_def)
  from mean_iou_noreduce_f32_in_unit_interval [OF p] p show ?thesis
    by simp
qed

text \<open>
  C10 as stated fails: for two equal masks with 64 pixels set, the intersection and the
  union are 64, the denominator \<open>64 + 1e-6\<close> is 64 in float32, and the result is
  exactly 1.
\<close>

theorem mean_iou_noreduce_f32_reaches_one:
  "mean_iou_noreduce_f32 [full_mask] [full_mask] = [Some 1]"
proof -
  have i: "bsum (map2 (map2 (\<and>)) (gt_half full_mask) (gt_half full_mask)) = 64"
    by (simp add: bsum_def gt_half_def full_mask_def)
  have u: "bsum (map2 (map2 (\<or>)) (gt_half full_mask) (gt_half full_mask)) = 64"
    by (simp add: bsum_def gt_half_def full_mask_def)
  have one: "round32 1 = 1"
    using round32_exact [of 1] by simp
  show ?thesis
    by (simp add: mean_iou_noreduce_f32_def mean_iou_noreduce_in_Cons mean_iou_noreduce_in_Nil
        i u round32_absorbs_epsilon one)
qed

section \<open>Properties of mean_miou_noreduce\<close>

subsection \<open>Minimum and maximum on masks\<close>

lemma row_min_and:
  "list_all (\<lambda>x. x = 0 \<or> x = 1) r1 \<Longrightarrow> list_all (\<lambda>x. x = 0 \<or> x = 1) r2 \<Longrightarrow>
   map (\<lambda>b. if b then 1 else 0) (map2 (\<and>) (map (\<lambda>x. 1/2 < x) r1) (map (\<lambda>x. 1/2 < x) r2))
   = map2 min r1 (r2 :: real list)"
proof (induction r1 arbitrary: r2)
  case Nil
  then show ?case by simp
next
  case (Cons x xs)
  then show ?case by (cases r2) auto
qed

lemma row_max_or:
  "list_all (\<lambda>x. x = 0 \<or> x = 1) r1 \<Longrightarrow> list_all (\<lambda>x. x = 0 \<or> x = 1) r2 \<Longrightarrow>
   map (\<lambda>b. if b then 1 else 0) (map2 (\<or>) (map (\<lambda>x. 1/2 < x) r1) (map (\<lambda>x. 1/2 < x) r2))
   = map2 max r1 (r2 :: real list)"
proof (induction r1 arbitrary: r2)
  case Nil
  then show ?case by simp
next
  case (Cons x xs)
  then show ?case by (cases r2) auto
qed

lemma image_min_and:
  "binary_mask a \<Longrightarrow> binary_mask b \<Longrightarrow>
   bsum (map2 (map2 (\<and>)) (gt_half a) (gt_half b)) = sum_list (concat (map2 (map2 min) a b))"
proof (induction a arbitrary: b)
  case Nil
  then show ?case by (simp add: bsum_def gt_half_def)
next
  case (Cons r a)
  show ?case
  proof (cases b)
    case Nil
    then show ?thesis by (simp add: bsum_def gt_half_def)
  next
    case (Cons s b')
    with Cons.prems have bin: "list_all (\<lambda>x. x = 0 \<or> x = 1) r" "list_all (\<lambda>x. x = 0 \<or> x = 1) s"
      "binary_mask a" "binary_mask b'"
      by (simp_all add: binary_mask_def)
    from Cons.IH [OF bin(3,4)] row_min_and [OF bin(1,2)] show ?thesis
      by (simp add: Cons bsum_def gt_half_def)
  qed
qed

lemma image_max_or:
  "binary_mask a \<Longrightarrow> binary_mask b \<Longrightarrow>
   bsum (map2 (map2 (\<or>)) (gt_half a) (gt_half b)) = sum_list (concat (map2 (map2 max) a b))"
proof (induction a arbitrary: b)
  case Nil
  then show ?case by (simp add: bsum_def gt_half_def)
next
  case (Cons r a)
  show ?case
  proof (cases b)
    case Nil
    then show ?thesis by (simp add: bsum_def gt_half_def)
  next
    case (Cons s b')
    with Cons.prems have bin: "list_all (\<lambda>x. x = 0 \<or> x = 1) r" "list_all (\<lambda>x. x = 0 \<or> x = 1) s"
      "binary_mask a" "binary_mask b'"
      by (simp_all add: binary_mask_def)
    from Cons.IH [OF bin(3,4)] row_max_or [OF bin(1,2)] show ?thesis
      by (simp add: Cons bsum_def gt_half_def)
  qed
qed

subsection \<open>The sums of a mask in float32\<close>

lemma fold_sum_binary:
  assumes "list_all (\<lambda>x. x = 0 \<or> x = 1) xs" and "k + length xs < 2 ^ 24"
  shows "foldl (add_in f32) (Fin (real k)) (map Fin xs) = Fin (real k + sum_list xs)"
  using assms
proof (induction xs arbitrary: k)
  case Nil
  then show ?case by simp
next
  case (Cons x xs)
  show ?case
  proof (cases "x = 0")
    case True
    have "f32 (real k) = Fin (real k)"
      using Cons.prems(2) by (intro f32_nat) simp
    moreover have "foldl (add_in f32) (Fin (real k)) (map Fin xs) = Fin (real k + sum_list xs)"
      using Cons.prems by (intro Cons.IH) simp_all
    ultimately show ?thesis
      using True by simp
  next
    case False
    with Cons.prems(1) have x: "x = 1" by simp
    have "f32 (real (Suc k)) = Fin (real (Suc k))"
      using Cons.prems(2) by (intro f32_nat) simp
    moreover have "foldl (add_in f32) (Fin (real (Suc k))) (map Fin xs)
         = Fin (real (Suc k) + sum_list xs)"
      using Cons.prems by (intro Cons.IH) simp_all
    ultimately show ?thesis
      using x by (simp add: add.commute)
  qed
qed

lemma sum_of_float32_binary:
  assumes "list_all (\<lambda>x. x = 0 \<or> x = 1) xs" and "length xs < 2 ^ 24"
  shows "sum_of float32 (map Fin xs) = Fin (sum_list xs)"
  using fold_sum_binary [OF assms(1), of 0] assms(2)
  by (simp add: float32_fields fold_sum_def)

lemma float32_counts_exactly: "counts_exactly float32"
proof -
  have "sum_of float32 [Fin (real n)] = Fin (real n)" if "n < 2 ^ 24" for n
    using f32_nat [OF that] by (simp add: float32_fields fold_sum_def)
  then show ?thesis
    using sum_of_float32_binary by (simp add: counts_exactly_def)
qed

lemma min_max_binary:
  fixes x y :: real
  assumes "x = 0 \<or> x = 1" and "y = 0 \<or> y = 1"
  shows "(min x y = 0 \<or> min x y = 1) \<and> (max x y = 0 \<or> max x y = 1)"
  using assms by (elim disjE) simp_all

lemma row_min_binary:
  assumes "list_all (\<lambda>x. x = 0 \<or> x = 1) r1" and "list_all (\<lambda>x. x = 0 \<or> x = 1) r2"
  shows "list_all (\<lambda>x. x = 0 \<or> x = 1) (map2 min r1 (r2 :: real list)) \<and>
         list_all (\<lambda>x. x = 0 \<or> x = 1) (map2 max r1 r2)"
proof -
  have "(min x y = 0 \<or> min x y = 1) \<and> (max x y = 0 \<or> max x y = 1)"
    if "(x, y) \<in> set (zip r1 r2)" for x y
  proof -
    have "x \<in> set r1" "y \<in> set r2"
      using that by (auto dest: set_zip_leftD set_zip_rightD)
    then have "x = 0 \<or> x = 1" "y = 0 \<or> y = 1"
      using assms by (simp_all add: list_all_iff)
    then show ?thesis
      by (rule min_max_binary)
  qed
  then show ?thesis
    by (simp add: list_all_iff split_beta)
qed

lemma image_min_binary:
  "binary_mask a \<Longrightarrow> binary_mask b \<Longrightarrow>
   list_all (\<lambda>x. x = 0 \<or> x = 1) (concat (map2 (map2 min) a b)) \<and>
   list_all (\<lambda>x. x = 0 \<or> x = 1) (concat (map2 (map2 max) a b))"
proof (induction a arbitrary: b)
  case Nil
  then show ?case by simp
next
  case (Cons r a)
  show ?case
  proof (cases b)
    case Nil
    then show ?thesis by simp
  next
    case (Cons s b')
    with Cons.prems have bin: "list_all (\<lambda>x. x = 0 \<or> x = 1) r" "list_all (\<lambda>x. x = 0 \<or> x = 1) s"
      "binary_mask a" "binary_mask b'"
      by (simp_all add: binary_mask_def)
    from Cons.IH [OF bin(3,4)] row_min_binary [OF bin(1,2)] show ?thesis
      by (simp add: Cons)
  qed
qed

subsection \<open>The quotient in float32\<close>

lemma f32_epsilon: "f32 (1/1000000) = Fin (round32 (1/1000000))"
proof (rule f32_round32)
  show "2 powi (- 126) \<le> (1/1000000 :: real)"
  proof -
    have "(2::real) powi (- 126) \<le> 2 powi (- 20)"
      by (intro power_int_increasing) simp_all
    also have "\<dots> \<le> 1/1000000"
      by (simp add: power_int_minus)
    finally show ?thesis .
  qed
  show "(1/1000000 :: real) < 2 powi 127"
    by simp
qed

text \<open>The denominator of one entry, from the count of the union.\<close>

lemma f32_denominator:
  assumes "u < 2 ^ 24"
  defines "d \<equiv> round32 (real u + round32 (1/1000000))"
  shows "0 < d \<and> real u \<le> d \<and> d \<le> 2 powi 25
         \<and> f32 (real u + round32 (1/1000000)) = Fin d"
proof -
  let ?c = "round32 (1/1000000)"
  let ?x = "real u + ?c"
  have c: "0 < ?c" "?c \<le> 1/524288"
    using round32_epsilon by simp_all
  have clo: "2 powi (- 20) \<le> ?c"
  proof -
    have "\<lfloor>log 2 (1/1000000 :: real)\<rfloor> = - 20"
      by (rule binade_unique) (simp_all add: power_int_minus)
    then show ?thesis
      using round32_pos_bounds [of "1/1000000"] by simp
  qed
  have x: "0 < ?x"
    using c by (simp add: add_nonneg_pos)
  then have d: "0 < d"
    unfolding d_def by (rule round32_pos)
  have ud: "real u \<le> d"
  proof (cases "u = 0")
    case True
    then show ?thesis using d by simp
  next
    case False
    then have "round32 (real u) \<le> d"
      unfolding d_def using c by (intro round32_mono) simp_all
    then show ?thesis
      using round32_exact [of u] False assms(1) by simp
  qed
  have "real u < real (2 ^ 24)"
    using assms(1) by (simp only: of_nat_less_iff)
  then have xhi: "?x < 2 powi 25"
    using c by simp
  have "2 powi \<lfloor>log 2 ?x\<rfloor> \<le> ?x"
    using binade [OF x] by simp
  with xhi have "(2::real) powi \<lfloor>log 2 ?x\<rfloor> < 2 powi 25"
    by linarith
  then have "\<lfloor>log 2 ?x\<rfloor> < 25"
    by (intro power_int_le_imp_less_exp [of "2::real"]) simp_all
  then have "(2::real) powi (\<lfloor>log 2 ?x\<rfloor> + 1) \<le> 2 powi 25"
    by (intro power_int_increasing) simp_all
  then have dhi: "d \<le> 2 powi 25"
    unfolding d_def using round32_pos_bounds [OF x] by linarith
  have "(2::real) powi (- 126) \<le> 2 powi (- 20)"
    by (intro power_int_increasing) simp_all
  then have lo: "2 powi (- 126) \<le> ?x"
    using clo by (simp add: add_increasing del: power_int_minus)
  have "(2::real) powi 25 < 2 powi 127"
    by (intro power_int_strict_increasing) simp_all
  then have hi: "?x < 2 powi 127"
    using xhi by linarith
  show ?thesis
    using d ud dhi f32_round32 [OF lo hi] by (simp add: d_def)
qed

lemma f32_quotient:
  assumes "i \<le> u" and "0 < d" and "real u \<le> d" and "d \<le> 2 powi 25"
  shows "f32 (real i / d) = Fin (round32 (real i / d))"
proof (cases "i = 0")
  case True
  then show ?thesis by (simp add: f32_0 round32_def)
next
  case False
  then have i: "1 \<le> real i" by simp
  have "1 / 2 powi 25 \<le> real i / d"
    using i assms(2,4) by (intro frac_le) simp_all
  moreover have "(2::real) powi (- 126) \<le> 1 / 2 powi 25"
    by (simp add: power_int_minus divide_simps)
  ultimately have lo: "2 powi (- 126) \<le> real i / d"
    by linarith
  have "real i / d \<le> 1"
    using assms(1,2,3) by (simp add: pos_divide_le_eq)
  moreover have "(1::real) < 2 powi 127"
    by simp
  ultimately have hi: "real i / d < 2 powi 127"
    by linarith
  show ?thesis
    by (rule f32_round32 [OF lo hi])
qed

subsection \<open>Single-channel masks\<close>

lemma mean_miou_noreduce_in_Cons:
  "mean_miou_noreduce_in b (p # ps) (t # ts) balanced =
   mean_miou_noreduce_in b [p] [t] balanced @ mean_miou_noreduce_in b ps ts balanced"
  by (simp add: mean_miou_noreduce_in_def Let_def)

lemma mean_miou_float32_single:
  assumes "rounded b = f32" and "counts_exactly b"
    and "binary_mask a" and "binary_mask c" and "pixels a < 2 ^ 24"
  shows "map to_fval (mean_miou_noreduce_in b [[a]] [[c]] False)
         = mean_iou_noreduce_f32 [a] [c]"
proof -
  from counts [of a c] obtain i u where
    iu: "bsum (map2 (map2 (\<and>)) (gt_half a) (gt_half c)) = real i"
      "bsum (map2 (map2 (\<or>)) (gt_half a) (gt_half c)) = real u"
      "i \<le> u" "u \<le> pixels a"
    by blast
  have u24: "u < 2 ^ 24" and i24: "i < 2 ^ 24"
    using iu(3,4) assms(5) by simp_all
  have mn: "sum_list (concat (map2 (map2 min) a c)) = real i"
    using image_min_and [OF assms(3,4)] iu(1) by simp
  have mx: "sum_list (concat (map2 (map2 max) a c)) = real u"
    using image_max_or [OF assms(3,4)] iu(2) by simp
  have len: "length (concat (map2 (map2 min) a c)) < 2 ^ 24"
    "length (concat (map2 (map2 max) a c)) < 2 ^ 24"
    using image_zip_pixels [of min a c] image_zip_pixels [of max a c] assms(5)
    by (simp_all add: pixels_def)
  have bin: "sum_of b (map Fin xs) = Fin (sum_list xs)"
    if "list_all (\<lambda>x. x = 0 \<or> x = 1) xs" "length xs < 2 ^ 24" for xs
    using assms(2) that by (simp add: counts_exactly_def)
  have one: "sum_of b [Fin (real n)] = Fin (real n)" if "n < 2 ^ 24" for n
    using assms(2) that by (simp add: counts_exactly_def)
  have si: "sum_of b (map Fin (concat (map2 (map2 min) a c))) = Fin (real i)"
    using bin [OF _ len(1)] image_min_binary [OF assms(3,4)] mn by simp
  have su: "sum_of b (map Fin (concat (map2 (map2 max) a c))) = Fin (real u)"
    using bin [OF _ len(2)] image_min_binary [OF assms(3,4)] mx by simp
  define d where "d = round32 (real u + round32 (1/1000000))"
  have d: "0 < d" "real u \<le> d" "d \<le> 2 powi 25"
    "f32 (real u + round32 (1/1000000)) = Fin d"
    using f32_denominator [OF u24] by (simp_all add: d_def)
  have q: "f32 (real i / d) = Fin (round32 (real i / d))"
    using iu(3) d(1,2,3) by (rule f32_quotient)
  have lhs: "mean_miou_noreduce_in b [[a]] [[c]] False = [Fin (round32 (real i / d))]"
    using d(1)
    by (simp add: mean_miou_noreduce_in_def si su one [OF i24] one [OF u24] assms(1)
        f32_epsilon d(4) q)
  have rhs: "mean_iou_noreduce_f32 [a] [c] = [Some (round32 (real i / d))]"
    using d(1)
    by (simp add: mean_iou_noreduce_f32_def mean_iou_noreduce_in_Cons mean_iou_noreduce_in_Nil
        iu(1,2) d_def [symmetric] Let_def)
  show ?thesis
    by (simp add: lhs rhs to_fval_def)
qed

text \<open>
  C6. Take two batches of float32 masks with entries 0 and 1, a single channel and fewer
  than \<open>2 ^ 24\<close> pixels per image. In float32, in whatever order a sum runs,
  \<open>mean_miou_noreduce\<close> with \<open>balanced=False\<close> returns what \<open>mean_iou_noreduce\<close>
  returns on the same masks without the channel axis, entry by entry: the minimum and
  the maximum of two such entries are the conjunction and the disjunction of the
  thresholded ones, the sums are exact counts, and both functions round the sum with
  \<open>1e-6\<close> and the quotient to float32.
\<close>

theorem mean_miou_float32_is_mean_iou:
  assumes "rounded b = f32" and "counts_exactly b"
    and "single_channel pred target"
    and "list_all (\<lambda>p. pixels (hd p) < 2 ^ 24) pred"
  shows "map to_fval (mean_miou_noreduce_in b pred target False) =
         mean_iou_noreduce_f32 (map hd pred) (map hd target)"
  using assms(3,4) unfolding single_channel_def
proof (induction pred target rule: list_all2_induct)
  case Nil
  then show ?case
    by (simp add: mean_miou_noreduce_in_def mean_iou_noreduce_f32_def mean_iou_noreduce_in_Nil)
next
  case (Cons p ps t ts)
  from Cons.hyps(1) obtain a c where pt: "p = [a]" "t = [c]"
    and bin: "binary_mask a" "binary_mask c"
    by (auto split: list.splits)
  have px: "pixels a < 2 ^ 24"
    using Cons.prems by (simp add: pt)
  have tl: "map to_fval (mean_miou_noreduce_in b ps ts False) =
      mean_iou_noreduce_f32 (map hd ps) (map hd ts)"
    using Cons.prems by (intro Cons.IH) simp
  have hd: "mean_iou_noreduce_f32 (a # map hd ps) (c # map hd ts)
      = mean_iou_noreduce_f32 [a] [c] @ mean_iou_noreduce_f32 (map hd ps) (map hd ts)"
    by (simp add: mean_iou_noreduce_f32_def mean_iou_noreduce_in_Cons mean_iou_noreduce_in_Nil)
  show ?case
    by (subst mean_miou_noreduce_in_Cons)
      (simp add: pt hd tl mean_miou_float32_single [OF assms(1,2) bin px])
qed

subsection \<open>An example in float32 and in float64\<close>

text \<open>
  For an intersection of 2 pixels and a union of 3, float32 computes \<open>2 / (3 + 1e-6)\<close>
  as \<open>11184807 / 2 ^ 24\<close>, about 0.6666664481, and float64 computes it as
  \<open>3002398750780747 / 2 ^ 52\<close>, about 0.6666664444.
\<close>

lemma round32_0: "round32 0 = 0"
  by (simp add: round32_def)

lemma round32_epsilon_value: "round32 (1/1000000) = 8796093/8796093022208"
  by (subst round32_at [where e = "- 20"]) (simp_all add: power_int_minus round_even_def Let_def)

lemma round32_epsilon_again: "round32 (8796093/8796093022208) = 8796093/8796093022208"
  by (subst round32_at [where e = "- 20"]) (simp_all add: power_int_minus round_even_def Let_def)

lemma round32_denominator: "round32 (26388287862717/8796093022208) = 3145729/1048576"
  by (subst round32_at [where e = 1]) (simp_all add: power_int_minus round_even_def Let_def)

lemma round32_quotient: "round32 (2097152/3145729) = 11184807/16777216"
  by (subst round32_at [where e = "- 1"]) (simp_all add: power_int_minus round_even_def Let_def)

lemma f64_0: "f64 0 = Fin 0"
  by (simp add: f64_def round_ieee_def)

lemma f64_1: "f64 1 = Fin 1"
  by (subst f64_at [where e = 0]) (simp_all add: power_int_minus round_even_def Let_def)

lemma f64_2: "f64 2 = Fin 2"
  by (subst f64_at [where e = 1]) (simp_all add: power_int_minus round_even_def Let_def)

lemma f64_3: "f64 3 = Fin 3"
  by (subst f64_at [where e = 1]) (simp_all add: power_int_minus round_even_def Let_def)

lemma f64_epsilon: "f64 (1/1000000) = Fin (4722366482869645/4722366482869645213696)"
  by (subst f64_at [where e = "- 20"]) (simp_all add: power_int_minus round_even_def Let_def)

lemma f64_denominator:
  "f64 (14167104170975418510733/4722366482869645213696) = Fin (3377700846427779/1125899906842624)"
  by (subst f64_at [where e = 1]) (simp_all add: power_int_minus round_even_def Let_def)

lemma f64_quotient:
  "f64 (2251799813685248/3377700846427779) = Fin (3002398750780747/4503599627370496)"
  by (subst f64_at [where e = "- 1"]) (simp_all add: power_int_minus round_even_def Let_def)

lemma mean_iou_f32_example:
  "mean_iou_noreduce_f32 [[[1, 1], [0, 1]]] [[[1, 0], [0, 1]]] = [Some (11184807/16777216)]"
  by (simp add: mean_iou_noreduce_f32_def mean_iou_noreduce_in_Cons mean_iou_noreduce_in_Nil
      bsum_def gt_half_def round32_epsilon_value round32_denominator round32_quotient)

lemma mean_miou_f64_example:
  "mean_miou_noreduce_in float64 [[[[1, 1], [0, 1]]]] [[[[1, 0], [0, 1]]]] False
   = [Fin (3002398750780747/4503599627370496)]"
  by (simp add: mean_miou_noreduce_in_def float64_def ieee_backend_def fold_sum_def
      f64_0 f64_1 f64_2 f64_3 f64_epsilon f64_denominator f64_quotient)

text \<open>
  With \<open>balanced=True\<close> the channels whose target is empty have the weight 0: of two
  channels, the second with an empty target, the result is the quotient of the first.
\<close>

lemma f32_quotient_value: "f32 (11184807/16777216) = Fin (11184807/16777216)"
  by (subst f32_at [where e = "- 1"]) (simp_all add: power_int_minus round_even_def Let_def)

lemma f32_epsilon_value: "f32 (1/1000000) = Fin (8796093/8796093022208)"
  by (simp add: f32_epsilon round32_epsilon_value)

lemma f32_denominator_value: "f32 (26388287862717/8796093022208) = Fin (3145729/1048576)"
  by (subst f32_at [where e = 1]) (simp_all add: power_int_minus round_even_def Let_def)

lemma f32_quotient_rounded: "f32 (2097152/3145729) = Fin (11184807/16777216)"
  by (subst f32_at [where e = "- 1"]) (simp_all add: power_int_minus round_even_def Let_def)

lemma f32_one_plus_epsilon: "f32 (8796101818301/8796093022208) = Fin (1048577/1048576)"
  by (subst f32_at [where e = 0]) (simp_all add: power_int_minus round_even_def Let_def)

lemma mean_miou_balanced_example:
  "mean_miou_noreduce_in float32 [[[[1, 1], [0, 1]], [[1, 0], [0, 0]]]]
     [[[[1, 0], [0, 1]], [[0, 0], [0, 0]]]] True
   = [Fin (11184807/16777216)]"
  by (simp add: mean_miou_noreduce_in_def float32_fields fold_sum_def gt_fl_def
      f32_0 f32_1 f32_2 f32_3 f32_epsilon_value f32_denominator_value f32_quotient_rounded
      f32_one_plus_epsilon f32_quotient_value)

text \<open>
  C6 in float32, at a batch of two masks of 2 by 2 pixels, the second one empty.
\<close>

theorem mean_miou_float32_is_mean_iou_witness:
  "map to_fval (mean_miou_noreduce_in float32 [[[[1, 1], [0, 1]]], [[[0, 0], [0, 0]]]]
       [[[[1, 0], [0, 1]]], [[[0, 0], [0, 0]]]] False)
     = mean_iou_noreduce_f32 [[[1, 1], [0, 1]], [[0, 0], [0, 0]]] [[[1, 0], [0, 1]], [[0, 0], [0, 0]]]
   \<and> mean_iou_noreduce_f32 [[[1, 1], [0, 1]], [[0, 0], [0, 0]]] [[[1, 0], [0, 1]], [[0, 0], [0, 0]]]
     = [Some (11184807/16777216), Some 0]"
proof -
  have s: "single_channel [[[[1, 1], [0, 1]]], [[[0, 0], [0, 0]]]]
      [[[[1, 0], [0, 1]]], [[[0, 0], [0, 0]]]]"
    by (simp add: single_channel_def binary_mask_def same_dims_def)
  have p: "list_all (\<lambda>p. pixels (hd p) < 2 ^ 24) [[[[1, 1], [0, 1]]], [[[0, 0], [0, 0::real]]]]"
    by (simp add: pixels_def)
  have v: "mean_iou_noreduce_f32 [[[1, 1], [0, 1]], [[0, 0], [0, 0]]] [[[1, 0], [0, 1]], [[0, 0], [0, 0]]]
     = [Some (11184807/16777216), Some 0]"
    by (simp add: mean_iou_noreduce_f32_def mean_iou_noreduce_in_Cons mean_iou_noreduce_in_Nil
      bsum_def gt_half_def round32_epsilon_value round32_denominator round32_quotient
      round32_0 round32_epsilon_again)
  show ?thesis
    using mean_miou_float32_is_mean_iou [OF float32_fields(1) float32_counts_exactly s p] v
    by simp
qed

text \<open>
  \<open>mean_iou_noreduce\<close> computes in float32 whatever the type of its arguments, by its
  \<open>.float()\<close>, and \<open>mean_miou_noreduce\<close> computes in the type of its arguments: on
  float64 masks the two results are not the same number.
\<close>

theorem mean_miou_float64_differs:
  "mean_miou_noreduce_in float64 [[[[1, 1], [0, 1]]]] [[[[1, 0], [0, 1]]]] False
     = [Fin (3002398750780747/4503599627370496)] \<and>
   mean_iou_noreduce_f32 (map hd [[[[1, 1], [0, 1]]]]) (map hd [[[[1, 0], [0, 1]]]])
     = [Some (11184807/16777216)] \<and>
   map to_fval (mean_miou_noreduce_in float64 [[[[1, 1], [0, 1]]]] [[[[1, 0], [0, 1]]]] False)
     \<noteq> mean_iou_noreduce_f32 (map hd [[[[1, 1], [0, 1]]]]) (map hd [[[[1, 0], [0, 1]]]])"
  using mean_iou_f32_example by (simp add: mean_miou_f64_example to_fval_def)

section \<open>Properties of LaplacianLoss\<close>

text \<open>
  C7. On a batch of size 1, \<open>forward\<close> yields the same value with and without
  \<open>average\<close>: either both calls raise the same error, or the per-sample vector has the
  single entry \<open>v\<close> and the average is the scalar \<open>v\<close>.
\<close>

theorem LaplacianLoss_forward_batch_of_one:
  assumes "length x = 1"
  shows "(\<exists>e. LaplacianLoss_forward \<lparr>laplacian = L, average = False\<rparr> x = Inl e \<and>
              LaplacianLoss_forward \<lparr>laplacian = L, average = True\<rparr> x = Inl e) \<or>
         (\<exists>v. LaplacianLoss_forward \<lparr>laplacian = L, average = False\<rparr> x = Inr (PerSample [v]) \<and>
              LaplacianLoss_forward \<lparr>laplacian = L, average = True\<rparr> x = Inr (Averaged (Some v)))"
proof -
  obtain xb where x: "x = [xb]"
    using assms by (cases x) auto
  show ?thesis
    by (simp add: x LaplacianLoss_forward_def fdiv_def Let_def)
qed

text \<open>C7 at the Laplacian of a path of three vertices and one sample in the plane.\<close>

theorem LaplacianLoss_forward_batch_of_one_witness:
  "LaplacianLoss_forward \<lparr>laplacian = path_laplacian, average = False\<rparr> [[[0, 0], [1, 2], [0, 0]]]
     = Inr (PerSample [30]) \<and>
   LaplacianLoss_forward \<lparr>laplacian = path_laplacian, average = True\<rparr> [[[0, 0], [1, 2], [0, 0]]]
     = Inr (Averaged (Some 30))"
proof -
  have l: "length [[[0, 0], [1, 2], [0, 0::real]]] = 1"
    by simp
  have t: "transpose [[0, 0], [1, 2], [0, 0::real]] = [[0, 1, 0], [0, 2, 0]]"
    by (simp add: transpose.simps)
  have f: "LaplacianLoss_forward \<lparr>laplacian = path_laplacian, average = False\<rparr> [[[0, 0], [1, 2], [0, 0]]]
     = Inr (PerSample [30])"
    by (simp add: LaplacianLoss_forward_def path_laplacian_def matmul_def dot_def t)
  from LaplacianLoss_forward_batch_of_one [OF l, of path_laplacian] f show ?thesis
    by auto
qed

section \<open>Properties of GANLoss\<close>

lemma hinge_loss_constructed: "GANLoss_init ''hinge'' 1 0 = Inr hinge_loss"
  by (simp add: GANLoss_init_def hinge_loss_def)

lemma ls_loss_constructed: "GANLoss_init ''ls'' 1 0 = Inr ls_loss"
  by (simp add: GANLoss_init_def ls_loss_def)

subsection \<open>The mean with a mask and a weight\<close>

lemma masked_ratios_finite:
  assumes "\<forall>ms\<in>set M. sum_list ms \<noteq> 0"
  shows "map2 (\<lambda>xs ms. fdiv (sum_list (map2 (*) xs ms)) (sum_list ms)) X M
         = map Some (map2 (\<lambda>xs ms. sum_list (map2 (*) xs ms) / sum_list ms) X M)"
  using assms by (auto simp: fdiv_def dest: set_zip_rightD)

lemma masked_ratios_not_finite:
  assumes "length X = length M" and "\<exists>ms\<in>set M. sum_list ms = 0"
  shows "\<not> list_all (\<lambda>v. v \<noteq> None)
           (map2 (\<lambda>xs ms. fdiv (sum_list (map2 (*) xs ms)) (sum_list ms)) X M)"
  using assms by (induction X M rule: list_induct2) (auto simp: fdiv_def)

lemma fmean_Some:
  "xs \<noteq> [] \<Longrightarrow> fmean (map Some xs) = Some (sum_list xs / real (length xs))"
  by (simp add: fmean_def mean_t_def fdiv_def list_all_iff comp_def)

lemma GANLoss_mean_unmasked:
  "GANLoss_mean x None weight =
    Inr (if concat (samples x) = [] then None
         else Some (sum_list (concat (samples x)) / real (length (concat (samples x)))
                    * (case weight of None \<Rightarrow> 1 | Some w \<Rightarrow> w)))"
  by (simp add: GANLoss_mean_def torch_mean_def mean_t_def fdiv_def fscale_def)

lemma GANLoss_mean_masked:
  assumes "shape x = shape m"
  shows "GANLoss_mean x (Some (MaskTensor m)) weight =
    Inr (if samples x = [] \<or> (\<exists>ms\<in>set (samples m). sum_list ms = 0) then None
         else Some (sum_list (map2 (\<lambda>xs ms. sum_list (map2 (*) xs ms) / sum_list ms)
                                (samples x) (samples m))
                    / real (length (samples x))
                    * (case weight of None \<Rightarrow> 1 | Some w \<Rightarrow> w)))"
proof -
  have len: "length (samples x) = length (samples m)"
    using assms by (simp add: shape_def)
  let ?f = "map2 (\<lambda>xs ms. fdiv (sum_list (map2 (*) xs ms)) (sum_list ms)) (samples x) (samples m)"
  let ?r = "map2 (\<lambda>xs ms. sum_list (map2 (*) xs ms) / sum_list ms) (samples x) (samples m)"
  consider (empty) "samples x = []"
    | (zero) "\<exists>ms\<in>set (samples m). sum_list ms = 0"
    | (finite) "samples x \<noteq> []" "\<forall>ms\<in>set (samples m). sum_list ms \<noteq> 0"
    by blast
  then show ?thesis
  proof cases
    case empty
    then show ?thesis
      using assms by (simp add: GANLoss_mean_def fmean_def mean_t_def fdiv_def fscale_def)
  next
    case zero
    from masked_ratios_not_finite [OF len zero] have "fmean ?f = None"
      by (simp add: fmean_def)
    then show ?thesis
      using assms zero by (simp add: GANLoss_mean_def fscale_def)
  next
    case finite
    have ne: "?r \<noteq> []"
      using finite(1) len by (cases "samples x"; cases "samples m") simp_all
    have l: "length ?r = length (samples x)"
      using len by simp
    have "fmean ?f = Some (sum_list ?r / real (length (samples x)))"
      using fmean_Some [OF ne] l by (simp only: masked_ratios_finite [OF finite(2)])
    then show ?thesis
      using assms finite by (simp add: GANLoss_mean_def fscale_def)
  qed
qed

text \<open>
  C5. In the mode \<open>hinge\<close>, \<open>loss\<close> for the generator (\<open>for_discriminator=False\<close>)
  fails with the assertion that states the rule when the target is not real. When it is
  real, the result is the negated mean of the raw input, times the weight if one is
  given: without a mask the mean of all entries (\<open>nan\<close> for an empty tensor); with a mask
  of the shape of the input, the mean over the batch of the masked sums
  \<open>sum(x * mask) / sum(mask)\<close> of the samples (not finite when the batch is empty or the
  mask of a sample sums to zero). A mask of another shape fails the shape assertion,
  and a list as a mask has no shape.
\<close>

theorem hinge_generator_loss_explicit:
  assumes "gan_mode self = ''hinge''"
  shows "GANLoss_loss self input False False msk weight =
           (Inl (AssertionError ''The generator's hinge loss must be aiming for real''), self) \<and>
         GANLoss_loss self input True False None weight =
           (Inr (if concat (samples input) = [] then None
                 else Some (- (sum_list (concat (samples input))
                               / real (length (concat (samples input)))
                               * (case weight of None \<Rightarrow> 1 | Some w \<Rightarrow> w)))), self) \<and>
         (shape input = shape m \<longrightarrow>
            GANLoss_loss self input True False (Some (MaskTensor m)) weight =
              (Inr (if samples input = [] \<or> (\<exists>ms\<in>set (samples m). sum_list ms = 0) then None
                    else Some (- (sum_list (map2 (\<lambda>xs ms. sum_list (map2 (*) xs ms) / sum_list ms)
                                              (samples input) (samples m))
                                  / real (length (samples input))
                                  * (case weight of None \<Rightarrow> 1 | Some w \<Rightarrow> w)))), self)) \<and>
         (shape input \<noteq> shape m \<longrightarrow>
            GANLoss_loss self input True False (Some (MaskTensor m)) weight =
              (Inl (ShapeAssertion (shape input) (shape m)), self)) \<and>
         GANLoss_loss self input True False (Some (MaskList l)) weight =
           (Inl AttributeError, self)"
proof (intro conjI impI)
  show "GANLoss_loss self input False False msk weight =
      (Inl (AssertionError ''The generator's hinge loss must be aiming for real''), self)"
    using assms by (simp add: GANLoss_loss_def)
next
  show "GANLoss_loss self input True False None weight =
      (Inr (if concat (samples input) = [] then None
            else Some (- (sum_list (concat (samples input))
                          / real (length (concat (samples input)))
                          * (case weight of None \<Rightarrow> 1 | Some w \<Rightarrow> w)))), self)"
    using assms by (simp add: GANLoss_loss_def GANLoss_mean_unmasked fneg_def)
next
  assume "shape input = shape m"
  from GANLoss_mean_masked [OF this, of weight]
  show "GANLoss_loss self input True False (Some (MaskTensor m)) weight =
      (Inr (if samples input = [] \<or> (\<exists>ms\<in>set (samples m). sum_list ms = 0) then None
            else Some (- (sum_list (map2 (\<lambda>xs ms. sum_list (map2 (*) xs ms) / sum_list ms)
                                      (samples input) (samples m))
                          / real (length (samples input))
                          * (case weight of None \<Rightarrow> 1 | Some w \<Rightarrow> w)))), self)"
    using assms by (simp add: GANLoss_loss_def fneg_def)
next
  assume "shape input \<noteq> shape m"
  then show "GANLoss_loss self input True False (Some (MaskTensor m)) weight =
      (Inl (ShapeAssertion (shape input) (shape m)), self)"
    using assms by (simp add: GANLoss_loss_def GANLoss_mean_def)
next
  show "GANLoss_loss self input True False (Some (MaskList l)) weight =
      (Inl AttributeError, self)"
    using assms by (simp add: GANLoss_loss_def GANLoss_mean_def)
qed

text \<open>
  C5 at the tensor \<open>[[1, 2], [3, 4]]\<close> of two samples and the weight 3. Without a mask
  the mean is 5/2 and the loss -15/2; the mask \<open>[[1, 0], [1, 1]]\<close> hides the entry 2:
  the masked means of the samples are 1 and 7/2, their mean is 9/4, and the loss is
  -27/4. The mask of zeros gives \<open>nan\<close>, and a mask of one pixel fails the assertion.
\<close>

theorem hinge_generator_loss_explicit_witness:
  "GANLoss_loss hinge_loss two_by_two False False None None =
     (Inl (AssertionError ''The generator's hinge loss must be aiming for real''), hinge_loss) \<and>
   GANLoss_loss hinge_loss two_by_two True False None (Some 3) =
     (Inr (Some (- (15/2))), hinge_loss) \<and>
   GANLoss_loss hinge_loss two_by_two True False (Some (MaskTensor left_mask)) (Some 3) =
     (Inr (Some (- (27/4))), hinge_loss) \<and>
   GANLoss_loss hinge_loss two_by_two True False
       (Some (MaskTensor (expand_as 0 two_by_two))) (Some 3) =
     (Inr None, hinge_loss) \<and>
   GANLoss_loss hinge_loss two_by_two True False (Some (MaskTensor (pixel 1))) (Some 3) =
     (Inl (ShapeAssertion [2, 1, 1, 2] [1, 1, 1, 1]), hinge_loss)"
proof -
  have g: "gan_mode hinge_loss = ''hinge''"
    by (simp add: hinge_loss_def)
  show ?thesis
    using hinge_generator_loss_explicit [OF g, of two_by_two None None left_mask]
      hinge_generator_loss_explicit [OF g, of two_by_two None "Some 3" left_mask]
      hinge_generator_loss_explicit [OF g, of two_by_two None "Some 3" "expand_as 0 two_by_two"]
      hinge_generator_loss_explicit [OF g, of two_by_two None "Some 3" "pixel 1"]
    by (simp add: shape_def two_by_two_def left_mask_def pixel_def expand_as_def tmap_def)
qed

text \<open>
  C9. In the modes \<open>ls\<close>, \<open>original\<close> and \<open>w\<close>, the result of \<open>loss\<close>, and the
  instance it leaves, do not depend on the mask and the weight.
\<close>

theorem loss_ignores_mask_and_weight:
  assumes "gan_mode self = ''ls'' \<or> gan_mode self = ''original'' \<or> gan_mode self = ''w''"
  shows "GANLoss_loss self input target_is_real for_discriminator msk weight =
         GANLoss_loss self input target_is_real for_discriminator msk' weight'"
  using assms by (auto simp: GANLoss_loss_def)

text \<open>C9 in the mode \<open>ls\<close>, without and with a mask and a weight.\<close>

theorem loss_ignores_mask_and_weight_witness:
  "GANLoss_loss ls_loss (pixel 3) True True None None =
   GANLoss_loss ls_loss (pixel 3) True True (Some (MaskTensor (pixel 0))) (Some 5) \<and>
   GANLoss_loss ls_loss (pixel 3) True True None None =
     (Inr (Some 4), ls_loss\<lparr>real_label_tensor := Some 1\<rparr>)"
proof -
  have g: "gan_mode ls_loss = ''ls'' \<or> gan_mode ls_loss = ''original'' \<or> gan_mode ls_loss = ''w''"
    by (simp add: ls_loss_def)
  have v: "GANLoss_loss ls_loss (pixel 3) True True None None =
     (Inr (Some 4), ls_loss\<lparr>real_label_tensor := Some 1\<rparr>)"
    by (simp add: GANLoss_loss_def ls_loss_def get_target_tensor_def mse_loss_def torch_mean_def
        tmap2_def tmap_def expand_as_def pixel_def mean_t_def fdiv_def)
  show ?thesis
    using loss_ignores_mask_and_weight [OF g, of "pixel 3" True True None None
        "Some (MaskTensor (pixel 0))" "Some 5"] v
    by simp
qed

subsection \<open>The call on a list of scales\<close>

text \<open>A mask list of another length than the input fails the assertion.\<close>

lemma call_mask_length_mismatch:
  "length ms \<noteq> length preds \<Longrightarrow>
   GANLoss_call self (Scales preds) target_is_real for_discriminator (Some (MaskList ms)) weight
     = (Inl (AssertionError []), self)"
  by (simp add: GANLoss_call_def)

lemma call_loop_short_weight:
  "idx \<le> length ws \<Longrightarrow> length ws < idx + length ps \<Longrightarrow>
   \<exists>e self'. call_loop self target_is_real for_discriminator msk (Some ws) idx ps loss = (Inl e, self')"
proof (induction ps arbitrary: self idx loss)
  case Nil
  then show ?case by simp
next
  case (Cons p ps)
  show ?case
  proof (cases "idx < length ws")
    case True
    with Cons.prems have "Suc idx \<le> length ws" "length ws < Suc idx + length ps"
      by simp_all
    from Cons.IH [OF this] show ?thesis
      by (auto split: pred.splits option.splits sum.splits prod.splits)
  next
    case False
    then show ?thesis
      by (auto split: pred.splits option.splits sum.splits prod.splits)
  qed
qed

text \<open>A weight list shorter than the input fails, at the first index it lacks or before.\<close>

lemma call_weight_list_too_short:
  assumes "length ws < length preds"
  shows "\<exists>e self'. GANLoss_call self (Scales preds) target_is_real for_discriminator msk (Some ws)
           = (Inl e, self')"
proof -
  have loop: "\<exists>e self'. call_loop self target_is_real for_discriminator msk' (Some ws) 0 preds (Some 0)
      = (Inl e, self')" for msk'
    using assms by (intro call_loop_short_weight) simp_all
  show ?thesis
  proof (cases msk)
    case None
    with loop [of None] show ?thesis
      by (auto simp: GANLoss_call_def)
  next
    case (Some a)
    show ?thesis
    proof (cases a)
      case (MaskTensor m)
      then show ?thesis
        by (simp add: Some GANLoss_call_def)
    next
      case (MaskList ms)
      with loop [of "Some ms"] show ?thesis
        by (auto simp: Some GANLoss_call_def)
    qed
  qed
qed

text \<open>
  A call that succeeds returns the accumulated loss over the number of scales, or over
  the sum of the weights when they are given.
\<close>

lemma call_normalisation:
  assumes "GANLoss_call self (Scales preds) target_is_real for_discriminator msk weight = (Inr v, self')"
  shows "\<exists>msk' loss.
           call_loop self target_is_real for_discriminator msk' weight 0 preds (Some 0) = (Inr loss, self') \<and>
           v = (case weight of None \<Rightarrow> fquot loss (real (length preds))
                             | Some ws \<Rightarrow> fquot loss (sum_list ws))"
  using assms
  by (auto simp: GANLoss_call_def split: option.splits mask_arg.splits sum.splits prod.splits if_splits)

text \<open>
  C2 fails for a weight list longer than the input, which no assertion checks: with one
  scale and the weights 1 and 2 the call succeeds, applies the first weight and divides
  the loss 1 by the sum 3 of both.
\<close>

theorem call_accepts_longer_weight_list:
  "GANLoss_call hinge_loss (Scales [PredTensor (pixel 0)]) True True None (Some [1, 2]) =
     (Inr (Some (1/3)), hinge_loss\<lparr>zero_tensor := Some 0\<rparr>)"
  by (simp add: GANLoss_call_def GANLoss_loss_def GANLoss_mean_def hinge_loss_def
      get_zero_tensor_def tmap2_def tmap_def expand_as_def pixel_def torch_mean_def mean_t_def
      fdiv_def fscale_def fneg_def fadd_def fquot_def)

end
